theory Spec2Isabelle
  imports Main "HOL-Library.Sublist" "HOL-Library.List_Lexorder" "HOL-Library.Char_ord"
begin

section \<open>Test-scenario lifecycle of uss_qualifier (scenarios/scenario.py)\<close>

text \<open>
  The scenario object of \<^verbatim>\<open>scenario.py\<close> is a record of its attributes. Report
  objects are shared: the case report under construction is both \<^verbatim>\<open>_case_report\<close>
  and the last element of the scenario report's case list, and a pending check keeps a
  reference to the step report it was opened on. Case and step reports therefore live in
  an explicit store (address to object) and every reference is an address; a new object
  takes the next unused address. Exceptions are values: every operation returns its
  outcome together with the state it leaves behind, so that what was mutated before a
  raise stays visible. \<^verbatim>\<open>datetime.utcnow()\<close> is an argument \<open>now\<close>; printing is
  not modelled.
\<close>

subsection \<open>Phases, severities, exceptions\<close>

datatype ScenarioPhase =
    Undefined
  | NotStarted
  | ReadyForTestCase
  | ReadyForTestStep
  | RunningTestStep
  | ReadyForCleanup
  | CleaningUp
  | Complete

text \<open>
  Modelled from the spec: \<^verbatim>\<open>Severity\<close> is imported from
  \<^verbatim>\<open>uss_qualifier.common_data_definitions\<close>, which is not among the sources. The
  spec (data model) gives its values as Low, High and Critical.
\<close>

datatype Severity = Low | High | Critical

type_synonym timestamp = nat
type_synonym addr = nat
type_synonym ParticipantID = string

text \<open>
  The texts of the exception messages are f-strings over the values below; a message is
  kept as the kind of violation with the values its text is built from.
\<close>

datatype message =
    WrongPhase ScenarioPhase string "ScenarioPhase set"
  | CaseNotDeclared string
  | CaseAlreadyRun string
  | StepNotDeclared string string
  | CheckNotDeclared string string string
  | NoCleanupDocumented
  | CleanupSkipped
  | AlreadyComplete
  | SeverityIssue Severity string
  | NotATestScenario string
  | ResourceNotFound string string string

datatype exn =
    RuntimeError message
  | ValueError message
  | NotImplementedError message
  | AttributeError
  | TypeError
  | ScenarioCannotContinueError message
  | TestRunCannotContinueError message
  | ForeignException string

subsection \<open>Documentation and report objects\<close>

record TestCheckDocumentation =
  check_name :: string
  check_url :: string
  applicable_requirements :: "string list"

record TestStepDocumentation =
  step_name :: string
  step_url :: string
  step_checks :: "TestCheckDocumentation list"

record TestCaseDocumentation =
  case_name :: string
  case_url :: string
  case_steps :: "TestStepDocumentation list"

record TestScenarioDocumentation =
  doc_name :: string
  doc_url :: string
  doc_cases :: "TestCaseDocumentation list"
  doc_cleanup :: "TestStepDocumentation option"

record TestScenarioDeclaration =
  scenario_type :: string

record PassedCheck =
  passed_name :: string
  passed_participants :: "ParticipantID list"
  passed_requirements :: "string list"

record FailedCheck =
  failed_name :: string
  failed_documentation_url :: string
  failed_timestamp :: timestamp
  failed_summary :: string
  failed_details :: string
  failed_requirements :: "string list"
  failed_severity :: Severity
  failed_participants :: "ParticipantID list"
  failed_additional_data :: "string option"
  failed_query_report_timestamps :: "timestamp list option"

record Query =
  query_method :: string
  query_url :: string
  query_status_code :: nat

record Note =
  note_message :: string
  note_timestamp :: timestamp

text \<open>
  Modelled from the spec: \<^verbatim>\<open>ErrorReport.create_from_exception\<close> is declared in
  \<^verbatim>\<open>reports/report.py\<close>, which is not among the sources; the execution-error
  record is taken to hold the exception it was created from.
\<close>

datatype ErrorReport = ErrorReport exn

definition create_from_exception :: "exn \<Rightarrow> ErrorReport" where
  "create_from_exception e = ErrorReport e"

text \<open>
  The reports are dictionaries whose optional keys may be absent: an absent key is
  \<open>None\<close>.
\<close>

record TestStepReport =
  sr_name :: string
  sr_documentation_url :: string
  sr_start_time :: timestamp
  sr_end_time :: "timestamp option"
  failed_checks :: "FailedCheck list"
  passed_checks :: "PassedCheck list"
  queries :: "Query list option"

record TestCaseReport =
  cr_name :: string
  cr_documentation_url :: string
  cr_start_time :: timestamp
  cr_end_time :: "timestamp option"
  cr_steps :: "addr list"

record TestScenarioReport =
  rep_name :: string
  rep_scenario_type :: string
  rep_documentation_url :: string
  rep_start_time :: timestamp
  rep_end_time :: "timestamp option"
  rep_cases :: "addr list"
  rep_notes :: "(string \<rightharpoonup> Note) option"
  rep_cleanup :: "addr option"
  execution_error :: "ErrorReport option"
  successful :: "bool option"

subsection \<open>The scenario object and the store of its report objects\<close>

text \<open>
  The failure observer is foreign code: it acts on a world \<open>'w\<close> of its own and either
  returns or raises.

  The attributes \<^verbatim>\<open>documentation\<close> and \<^verbatim>\<open>declaration\<close> are only
  annotated in the class body: the first is bound by \<^verbatim>\<open>TestScenario.__init__\<close>, the
  second by the factory after the constructor has returned. Until then they are \<open>None\<close>
  here, and reading them raises AttributeError. The other attributes have class-level
  defaults.
\<close>

type_synonym 'w observer = "FailedCheck \<Rightarrow> 'w \<Rightarrow> exn option \<times> 'w"

record 'w TestScenario =
  scn_declaration :: "TestScenarioDeclaration option"
  documentation :: "TestScenarioDocumentation option"
  on_failed_check :: "'w observer option"
  phase :: ScenarioPhase
  scenario_report :: "TestScenarioReport option"
  current_case :: "TestCaseDocumentation option"
  case_report :: "addr option"
  current_step :: "TestStepDocumentation option"
  step_report :: "addr option"
  case_store :: "addr \<Rightarrow> TestCaseReport"
  case_next :: addr
  step_store :: "addr \<Rightarrow> TestStepReport"
  step_next :: addr

text \<open>
  \<^verbatim>\<open>{c.name: c for c in xs}[name]\<close>: a later entry replaces an earlier one of the
  same name, so the entry found is the last one of that name.
\<close>

definition by_name :: "('a \<Rightarrow> string) \<Rightarrow> 'a list \<Rightarrow> string \<Rightarrow> 'a option" where
  "by_name nm xs = map_of (rev (map (\<lambda>c. (nm c, c)) xs))"

definition make_scenario_report ::
  "timestamp \<Rightarrow> 'w TestScenario \<Rightarrow> (exn + unit) \<times> 'w TestScenario" where
  "make_scenario_report now s =
     (case documentation s of
        None \<Rightarrow> (Inl AttributeError, s)
      | Some doc \<Rightarrow>
         (case scn_declaration s of
            None \<Rightarrow> (Inl AttributeError, s)
          | Some decl \<Rightarrow>
             (Inr (),
              s\<lparr>scenario_report := Some
                  \<lparr>rep_name = doc_name doc,
                   rep_scenario_type = scenario_type decl,
                   rep_documentation_url = doc_url doc,
                   rep_start_time = now,
                   rep_end_time = None,
                   rep_cases = [],
                   rep_notes = None,
                   rep_cleanup = None,
                   execution_error = None,
                   successful = None\<rparr>\<rparr>)))"

definition expect_phase ::
  "string \<Rightarrow> ScenarioPhase set \<Rightarrow> 'w TestScenario \<Rightarrow> exn + unit" where
  "expect_phase caller expected_phase s =
     (if phase s \<notin> expected_phase
      then Inl (RuntimeError (WrongPhase (phase s) caller expected_phase))
      else Inr ())"

definition record_note ::
  "string \<Rightarrow> string \<Rightarrow> timestamp \<Rightarrow> 'w TestScenario \<Rightarrow> (exn + unit) \<times> 'w TestScenario" where
  "record_note key msg now s =
     (case expect_phase ''record_note''
             {NotStarted, ReadyForTestCase, ReadyForTestStep, RunningTestStep,
              ReadyForCleanup, CleaningUp} s of
        Inl e \<Rightarrow> (Inl e, s)
      | Inr _ \<Rightarrow>
         (case scenario_report s of
            None \<Rightarrow> (Inl TypeError, s)
          | Some r \<Rightarrow>
              (Inr (),
               s\<lparr>scenario_report := Some
                   (r\<lparr>rep_notes := Some
                        ((case rep_notes r of None \<Rightarrow> Map.empty | Some m \<Rightarrow> m)
                           (key \<mapsto> \<lparr>note_message = msg, note_timestamp = now\<rparr>))\<rparr>)\<rparr>)))"

definition begin_test_scenario ::
  "timestamp \<Rightarrow> 'w TestScenario \<Rightarrow> (exn + unit) \<times> 'w TestScenario" where
  "begin_test_scenario now s =
     (case expect_phase ''begin_test_scenario'' {NotStarted} s of
        Inl e \<Rightarrow> (Inl e, s)
      | Inr _ \<Rightarrow>
         (case make_scenario_report now s of
            (Inl e, s1) \<Rightarrow> (Inl e, s1)
          | (Inr _, s1) \<Rightarrow> (Inr (), s1\<lparr>phase := ReadyForTestCase\<rparr>)))"

definition begin_test_case ::
  "string \<Rightarrow> timestamp \<Rightarrow> 'w TestScenario \<Rightarrow> (exn + unit) \<times> 'w TestScenario" where
  "begin_test_case name now s =
     (case expect_phase ''begin_test_case'' {ReadyForTestCase} s of
        Inl e \<Rightarrow> (Inl e, s)
      | Inr _ \<Rightarrow>
         (case documentation s of
            None \<Rightarrow> (Inl AttributeError, s)
          | Some doc \<Rightarrow>
             (case by_name case_name (doc_cases doc) name of
                None \<Rightarrow> (Inl (RuntimeError (CaseNotDeclared name)), s)
              | Some c \<Rightarrow>
                 (case scenario_report s of
                    None \<Rightarrow> (Inl AttributeError, s)
                  | Some r \<Rightarrow>
                     if name \<in> set (map (\<lambda>a. cr_name (case_store s a)) (rep_cases r))
                     then (Inl (RuntimeError (CaseAlreadyRun name)), s)
                     else
                       (Inr (),
                        s\<lparr>current_case := Some c,
                          case_report := Some (case_next s),
                          case_store := (case_store s)
                            (case_next s :=
                               \<lparr>cr_name = case_name c,
                                cr_documentation_url = case_url c,
                                cr_start_time = now,
                                cr_end_time = None,
                                cr_steps = []\<rparr>),
                          case_next := Suc (case_next s),
                          scenario_report := Some
                            (r\<lparr>rep_cases := rep_cases r @ [case_next s]\<rparr>),
                          phase := ReadyForTestStep\<rparr>)))))"

text \<open>
  \<^verbatim>\<open>begin_test_step\<close> assigns \<^verbatim>\<open>_current_step\<close> and \<^verbatim>\<open>_step_report\<close>
  before it appends to \<^verbatim>\<open>self._case_report.steps\<close>; without a case report the
  append raises with both already assigned.
\<close>

definition begin_test_step ::
  "string \<Rightarrow> timestamp \<Rightarrow> 'w TestScenario \<Rightarrow> (exn + unit) \<times> 'w TestScenario" where
  "begin_test_step name now s =
     (case expect_phase ''begin_test_step'' {ReadyForTestStep} s of
        Inl e \<Rightarrow> (Inl e, s)
      | Inr _ \<Rightarrow>
         (case current_case s of
            None \<Rightarrow> (Inl AttributeError, s)
          | Some cc \<Rightarrow>
             (case by_name step_name (case_steps cc) name of
                None \<Rightarrow> (Inl (RuntimeError (StepNotDeclared name (case_name cc))), s)
              | Some sd \<Rightarrow>
                 (let s1 = s\<lparr>current_step := Some sd,
                             step_report := Some (step_next s),
                             step_store := (step_store s)
                               (step_next s :=
                                  \<lparr>sr_name = step_name sd,
                                   sr_documentation_url = step_url sd,
                                   sr_start_time = now,
                                   sr_end_time = None,
                                   failed_checks = [],
                                   passed_checks = [],
                                   queries = None\<rparr>),
                             step_next := Suc (step_next s)\<rparr>
                  in case case_report s1 of
                       None \<Rightarrow> (Inl AttributeError, s1)
                     | Some ca \<Rightarrow>
                         (Inr (),
                          s1\<lparr>case_store := (case_store s1)
                                (ca := (case_store s1 ca)
                                   \<lparr>cr_steps := cr_steps (case_store s1 ca) @ [step_next s]\<rparr>),
                             phase := RunningTestStep\<rparr>)))))"

definition record_query ::
  "Query \<Rightarrow> 'w TestScenario \<Rightarrow> (exn + unit) \<times> 'w TestScenario" where
  "record_query query s =
     (case expect_phase ''record_query'' {RunningTestStep, CleaningUp} s of
        Inl e \<Rightarrow> (Inl e, s)
      | Inr _ \<Rightarrow>
         (case step_report s of
            None \<Rightarrow> (Inl TypeError, s)
          | Some a \<Rightarrow>
              (Inr (),
               s\<lparr>step_store := (step_store s)
                    (a := (step_store s a)
                       \<lparr>queries := Some
                          ((case queries (step_store s a) of None \<Rightarrow> [] | Some qs \<Rightarrow> qs)
                             @ [query])\<rparr>)\<rparr>)))"


subsection \<open>Pending checks\<close>

record 'w PendingCheck =
  pc_documentation :: TestCheckDocumentation
  pc_step_report :: "addr option"
  pc_on_failed_check :: "'w observer option"
  pc_participants :: "ParticipantID list"
  outcome_recorded :: bool

text \<open>
  \<^verbatim>\<open>check\<close> hands the scenario's \<^verbatim>\<open>_step_report\<close> reference and its
  \<^verbatim>\<open>on_failed_check\<close> to the new handle; the class attribute
  \<^verbatim>\<open>_outcome_recorded\<close> starts as False. The message for an undeclared check
  name reads \<^verbatim>\<open>self._current_case.name\<close>: when no case is current, as during a
  cleanup that follows the last case, building the message raises AttributeError and the
  RuntimeError is never raised.
\<close>

definition check ::
  "string \<Rightarrow> ParticipantID list option \<Rightarrow> 'w TestScenario
     \<Rightarrow> (exn + 'w PendingCheck) \<times> 'w TestScenario" where
  "check name participants s =
     (case expect_phase ''check'' {RunningTestStep, CleaningUp} s of
        Inl e \<Rightarrow> (Inl e, s)
      | Inr _ \<Rightarrow>
         (case current_step s of
            None \<Rightarrow> (Inl AttributeError, s)
          | Some cs \<Rightarrow>
             (case by_name check_name (step_checks cs) name of
                None \<Rightarrow>
                  (case current_case s of
                     None \<Rightarrow> (Inl AttributeError, s)
                   | Some cc \<Rightarrow>
                       (Inl (RuntimeError
                               (CheckNotDeclared name (step_name cs) (case_name cc))), s))
              | Some check_documentation \<Rightarrow>
                 (Inr \<lparr>pc_documentation = check_documentation,
                       pc_step_report = step_report s,
                       pc_on_failed_check = on_failed_check s,
                       pc_participants = (case participants of None \<Rightarrow> [] | Some ps \<Rightarrow> ps),
                       outcome_recorded = False\<rparr>,
                  s))))"

subsection \<open>Ending steps, cases and the scenario; cleanup\<close>

definition end_test_step ::
  "timestamp \<Rightarrow> 'w TestScenario \<Rightarrow> (exn + unit) \<times> 'w TestScenario" where
  "end_test_step now s =
     (case expect_phase ''end_test_step'' {RunningTestStep} s of
        Inl e \<Rightarrow> (Inl e, s)
      | Inr _ \<Rightarrow>
         (case step_report s of
            None \<Rightarrow> (Inl AttributeError, s)
          | Some a \<Rightarrow>
              (Inr (),
               s\<lparr>step_store := (step_store s)(a := (step_store s a)\<lparr>sr_end_time := Some now\<rparr>),
                 current_step := None,
                 step_report := None,
                 phase := ReadyForTestStep\<rparr>)))"

definition end_test_case ::
  "timestamp \<Rightarrow> 'w TestScenario \<Rightarrow> (exn + unit) \<times> 'w TestScenario" where
  "end_test_case now s =
     (case expect_phase ''end_test_case'' {ReadyForTestStep} s of
        Inl e \<Rightarrow> (Inl e, s)
      | Inr _ \<Rightarrow>
         (case case_report s of
            None \<Rightarrow> (Inl AttributeError, s)
          | Some a \<Rightarrow>
              (Inr (),
               s\<lparr>case_store := (case_store s)(a := (case_store s a)\<lparr>cr_end_time := Some now\<rparr>),
                 current_case := None,
                 case_report := None,
                 phase := ReadyForTestCase\<rparr>)))"

definition end_test_scenario ::
  "timestamp \<Rightarrow> 'w TestScenario \<Rightarrow> (exn + unit) \<times> 'w TestScenario" where
  "end_test_scenario now s =
     (case expect_phase ''end_test_scenario'' {ReadyForTestCase} s of
        Inl e \<Rightarrow> (Inl e, s)
      | Inr _ \<Rightarrow>
         (case scenario_report s of
            None \<Rightarrow> (Inl AttributeError, s)
          | Some r \<Rightarrow>
              (Inr (),
               s\<lparr>scenario_report := Some (r\<lparr>rep_end_time := Some now\<rparr>),
                 phase := ReadyForCleanup\<rparr>)))"

definition go_to_cleanup :: "'w TestScenario \<Rightarrow> (exn + unit) \<times> 'w TestScenario" where
  "go_to_cleanup s =
     (case expect_phase ''go_to_cleanup''
             {ReadyForTestCase, ReadyForTestStep, RunningTestStep, ReadyForCleanup} s of
        Inl e \<Rightarrow> (Inl e, s)
      | Inr _ \<Rightarrow> (Inr (), s\<lparr>phase := ReadyForCleanup\<rparr>))"

text \<open>
  \<^verbatim>\<open>begin_cleanup\<close> assigns \<^verbatim>\<open>_current_step\<close> and \<^verbatim>\<open>_step_report\<close>
  before it stores the new step report as the scenario report's cleanup.
\<close>

definition begin_cleanup ::
  "timestamp \<Rightarrow> 'w TestScenario \<Rightarrow> (exn + unit) \<times> 'w TestScenario" where
  "begin_cleanup now s =
     (case expect_phase ''begin_cleanup'' {ReadyForCleanup} s of
        Inl e \<Rightarrow> (Inl e, s)
      | Inr _ \<Rightarrow>
         (case documentation s of
            None \<Rightarrow> (Inl AttributeError, s)
          | Some doc \<Rightarrow>
             (case doc_cleanup doc of
                None \<Rightarrow> (Inl (RuntimeError NoCleanupDocumented), s)
              | Some sd \<Rightarrow>
                 (let s1 = s\<lparr>current_step := Some sd,
                             step_report := Some (step_next s),
                             step_store := (step_store s)
                               (step_next s :=
                                  \<lparr>sr_name = step_name sd,
                                   sr_documentation_url = step_url sd,
                                   sr_start_time = now,
                                   sr_end_time = None,
                                   failed_checks = [],
                                   passed_checks = [],
                                   queries = None\<rparr>),
                             step_next := Suc (step_next s)\<rparr>
                  in case scenario_report s1 of
                       None \<Rightarrow> (Inl AttributeError, s1)
                     | Some r \<Rightarrow>
                         (Inr (),
                          s1\<lparr>scenario_report := Some (r\<lparr>rep_cleanup := Some (step_next s)\<rparr>),
                             phase := CleaningUp\<rparr>)))))"

definition skip_cleanup :: "'w TestScenario \<Rightarrow> (exn + unit) \<times> 'w TestScenario" where
  "skip_cleanup s =
     (case expect_phase ''skip_cleanup'' {ReadyForCleanup} s of
        Inl e \<Rightarrow> (Inl e, s)
      | Inr _ \<Rightarrow>
         (case documentation s of
            None \<Rightarrow> (Inl AttributeError, s)
          | Some doc \<Rightarrow>
             if doc_cleanup doc \<noteq> None
             then (Inl (RuntimeError CleanupSkipped), s)
             else (Inr (), s\<lparr>phase := Complete\<rparr>)))"

definition end_cleanup ::
  "timestamp \<Rightarrow> 'w TestScenario \<Rightarrow> (exn + unit) \<times> 'w TestScenario" where
  "end_cleanup now s =
     (case expect_phase ''end_cleanup'' {CleaningUp} s of
        Inl e \<Rightarrow> (Inl e, s)
      | Inr _ \<Rightarrow>
         (case step_report s of
            None \<Rightarrow> (Inl AttributeError, s)
          | Some a \<Rightarrow>
              (Inr (),
               s\<lparr>step_store := (step_store s)(a := (step_store s a)\<lparr>sr_end_time := Some now\<rparr>),
                 phase := Complete\<rparr>)))"

subsection \<open>Execution errors and the final report\<close>

definition record_execution_error ::
  "exn \<Rightarrow> timestamp \<Rightarrow> 'w TestScenario \<Rightarrow> (exn + unit) \<times> 'w TestScenario" where
  "record_execution_error e now s =
     (if phase s = Complete then (Inl (RuntimeError AlreadyComplete), s)
      else
        (case (if scenario_report s = None then make_scenario_report now s else (Inr (), s)) of
           (Inl e', s1) \<Rightarrow> (Inl e', s1)
         | (Inr _, s1) \<Rightarrow>
            (case scenario_report s1 of
               None \<Rightarrow> (Inl AttributeError, s1)
             | Some r \<Rightarrow>
                 (Inr (),
                  s1\<lparr>scenario_report := Some
                        (r\<lparr>execution_error := Some (create_from_exception e),
                           successful := Some False\<rparr>),
                     phase := Complete\<rparr>))))"

text \<open>
  The three nested loops of \<^verbatim>\<open>get_report\<close> over cases, steps and failed checks,
  and the loop over the cleanup step's failed checks: each carries the value of
  \<^verbatim>\<open>successful\<close> and sets it to False at a failed check that is not Low.
\<close>

fun failed_checks_loop :: "FailedCheck list \<Rightarrow> bool \<Rightarrow> bool" where
  "failed_checks_loop [] succ = succ"
| "failed_checks_loop (failed_check # rest) succ =
     failed_checks_loop rest (if failed_severity failed_check \<noteq> Low then False else succ)"

fun steps_loop :: "(addr \<Rightarrow> TestStepReport) \<Rightarrow> addr list \<Rightarrow> bool \<Rightarrow> bool" where
  "steps_loop st [] succ = succ"
| "steps_loop st (a # rest) succ =
     steps_loop st rest (failed_checks_loop (failed_checks (st a)) succ)"

fun cases_loop ::
  "(addr \<Rightarrow> TestCaseReport) \<Rightarrow> (addr \<Rightarrow> TestStepReport) \<Rightarrow> addr list \<Rightarrow> bool \<Rightarrow> bool" where
  "cases_loop cs st [] succ = succ"
| "cases_loop cs st (a # rest) succ =
     cases_loop cs st rest (steps_loop st (cr_steps (cs a)) succ)"

definition evaluate_success ::
  "(addr \<Rightarrow> TestCaseReport) \<Rightarrow> (addr \<Rightarrow> TestStepReport) \<Rightarrow> TestScenarioReport \<Rightarrow> bool" where
  "evaluate_success cs st r =
     (let succ0 = (execution_error r = None);
          succ1 = cases_loop cs st (rep_cases r) succ0
      in case rep_cleanup r of
           None \<Rightarrow> succ1
         | Some a \<Rightarrow> failed_checks_loop (failed_checks (st a)) succ1)"

text \<open>
  \<^verbatim>\<open>get_report\<close> catches the RuntimeError of \<^verbatim>\<open>_expect_phase\<close> and records it;
  an exception of \<^verbatim>\<open>record_execution_error\<close> itself would leave the handler.
\<close>

definition get_report ::
  "timestamp \<Rightarrow> 'w TestScenario \<Rightarrow> (exn + TestScenarioReport) \<times> 'w TestScenario" where
  "get_report now s =
     (case (if scenario_report s = None then make_scenario_report now s else (Inr (), s)) of
        (Inl e, s1) \<Rightarrow> (Inl e, s1)
      | (Inr _, s1) \<Rightarrow>
         (case scenario_report s1 of
            None \<Rightarrow> (Inl TypeError, s1)
          | Some r1 \<Rightarrow>
             (case (if execution_error r1 = None
                    then (case expect_phase ''get_report'' {Complete} s1 of
                            Inl (RuntimeError m) \<Rightarrow>
                              record_execution_error (RuntimeError m) now s1
                          | Inl e \<Rightarrow> (Inl e, s1)
                          | Inr _ \<Rightarrow> (Inr (), s1))
                    else (Inr (), s1)) of
                (Inl e, s2) \<Rightarrow> (Inl e, s2)
              | (Inr _, s2) \<Rightarrow>
                 (case scenario_report s2 of
                    None \<Rightarrow> (Inl AttributeError, s2)
                  | Some r2 \<Rightarrow>
                     (let r3 = r2\<lparr>successful :=
                                    Some (evaluate_success (case_store s2) (step_store s2) r2)\<rparr>
                      in (Inr r3, s2\<lparr>scenario_report := Some r3\<rparr>))))))"


subsection \<open>Recording the outcome of a pending check\<close>

text \<open>
  The handle, the store and the observer's world are all mutated by
  \<^verbatim>\<open>record_failed\<close>, in this order: the flag, the step report, the observer, and
  then the raise that depends on the severity. An exception of the observer leaves
  \<^verbatim>\<open>record_failed\<close> before the severity is looked at.
\<close>

definition record_failed ::
  "string \<Rightarrow> Severity \<Rightarrow> string \<Rightarrow> ParticipantID list option \<Rightarrow> timestamp list option
     \<Rightarrow> string option \<Rightarrow> string list option \<Rightarrow> timestamp
     \<Rightarrow> 'w PendingCheck \<Rightarrow> 'w TestScenario \<Rightarrow> 'w
     \<Rightarrow> (exn + unit) \<times> 'w PendingCheck \<times> 'w TestScenario \<times> 'w" where
  "record_failed summary severity details participants query_timestamps additional_data
       requirements now h s w =
     (let h1 = h\<lparr>outcome_recorded := True\<rparr>;
          failed_check =
            \<lparr>failed_name = check_name (pc_documentation h1),
             failed_documentation_url = check_url (pc_documentation h1),
             failed_timestamp = now,
             failed_summary = summary,
             failed_details = details,
             failed_requirements =
               (case requirements of
                  None \<Rightarrow> applicable_requirements (pc_documentation h1)
                | Some rs \<Rightarrow> rs),
             failed_severity = severity,
             failed_participants =
               (case participants of None \<Rightarrow> pc_participants h1 | Some ps \<Rightarrow> ps),
             failed_additional_data = additional_data,
             failed_query_report_timestamps = query_timestamps\<rparr>
      in case pc_step_report h1 of
           None \<Rightarrow> (Inl AttributeError, h1, s, w)
         | Some a \<Rightarrow>
            (let s1 = s\<lparr>step_store := (step_store s)
                          (a := (step_store s a)
                             \<lparr>failed_checks := failed_checks (step_store s a) @ [failed_check]\<rparr>)\<rparr>;
                 (raised, w1) =
                   (case pc_on_failed_check h1 of
                      None \<Rightarrow> (None, w)
                    | Some observer \<Rightarrow> observer failed_check w)
             in case raised of
                  Some e \<Rightarrow> (Inl e, h1, s1, w1)
                | None \<Rightarrow>
                   if severity = High
                   then (Inl (ScenarioCannotContinueError (SeverityIssue severity summary)),
                         h1, s1, w1)
                   else if severity = Critical
                   then (Inl (TestRunCannotContinueError (SeverityIssue severity summary)),
                         h1, s1, w1)
                   else (Inr (), h1, s1, w1)))"

definition record_passed ::
  "ParticipantID list option \<Rightarrow> string list option
     \<Rightarrow> 'w PendingCheck \<Rightarrow> 'w TestScenario
     \<Rightarrow> (exn + unit) \<times> 'w PendingCheck \<times> 'w TestScenario" where
  "record_passed participants requirements h s =
     (let h1 = h\<lparr>outcome_recorded := True\<rparr>;
          passed_check =
            \<lparr>passed_name = check_name (pc_documentation h1),
             passed_participants =
               (case participants of None \<Rightarrow> pc_participants h1 | Some ps \<Rightarrow> ps),
             passed_requirements =
               (case requirements of
                  None \<Rightarrow> applicable_requirements (pc_documentation h1)
                | Some rs \<Rightarrow> rs)\<rparr>
      in case pc_step_report h1 of
           None \<Rightarrow> (Inl AttributeError, h1, s)
         | Some a \<Rightarrow>
            (Inr (), h1,
             s\<lparr>step_store := (step_store s)
                  (a := (step_store s a)
                     \<lparr>passed_checks := passed_checks (step_store s a) @ [passed_check]\<rparr>)\<rparr>))"

text \<open>
  \<^verbatim>\<open>__enter__\<close> returns the handle. \<^verbatim>\<open>__exit__\<close> ignores the exception it is
  told about (\<open>exc\<close>) and returns None, so it never suppresses one.
\<close>

definition PendingCheck_enter :: "'w PendingCheck \<Rightarrow> 'w PendingCheck" where
  "PendingCheck_enter h = h"

definition PendingCheck_exit ::
  "exn option \<Rightarrow> 'w PendingCheck \<Rightarrow> 'w TestScenario
     \<Rightarrow> (exn + unit) \<times> 'w PendingCheck \<times> 'w TestScenario" where
  "PendingCheck_exit exc h s =
     (if \<not> outcome_recorded h then record_passed None None h s else (Inr (), h, s))"

text \<open>
  \<^verbatim>\<open>with handle as check: body\<close>. The body is any code that works on the handle, the
  scenario and the observer's world and returns or raises. \<^verbatim>\<open>__exit__\<close> runs on
  both ways out; since it returns None, an exception of the body is raised again after
  it, unless \<^verbatim>\<open>__exit__\<close> itself raised.
\<close>

definition with_check ::
  "'w PendingCheck
     \<Rightarrow> ('w PendingCheck \<Rightarrow> 'w TestScenario \<Rightarrow> 'w
          \<Rightarrow> (exn + 'a) \<times> 'w PendingCheck \<times> 'w TestScenario \<times> 'w)
     \<Rightarrow> 'w TestScenario \<Rightarrow> 'w
     \<Rightarrow> (exn + 'a) \<times> 'w PendingCheck \<times> 'w TestScenario \<times> 'w" where
  "with_check h body s w =
     (let (res, h1, s1, w1) = body (PendingCheck_enter h) s w;
          exc = (case res of Inl e \<Rightarrow> Some e | Inr _ \<Rightarrow> None);
          (exit_res, h2, s2) = PendingCheck_exit exc h1 s1
      in case exit_res of
           Inl e \<Rightarrow> (Inl e, h2, s2, w1)
         | Inr _ \<Rightarrow> (res, h2, s2, w1))"

subsection \<open>Construction\<close>

text \<open>
  A scenario object before any constructor has run holds the class-level defaults.
  \<^verbatim>\<open>TestScenario.__init__\<close> binds the documentation (\<^verbatim>\<open>get_documentation\<close> of
  the class, an argument here) and sets the phase. No report object exists yet.
\<close>

definition TestScenario_new :: "'w TestScenario" where
  "TestScenario_new =
     \<lparr>scn_declaration = None,
      documentation = None,
      on_failed_check = None,
      phase = Undefined,
      scenario_report = None,
      current_case = None,
      case_report = None,
      current_step = None,
      step_report = None,
      case_store = (\<lambda>_. undefined),
      case_next = 0,
      step_store = (\<lambda>_. undefined),
      step_next = 0\<rparr>"

definition TestScenario_init ::
  "TestScenarioDocumentation \<Rightarrow> 'w TestScenario \<Rightarrow> 'w TestScenario" where
  "TestScenario_init doc s = s\<lparr>documentation := Some doc, phase := NotStarted\<rparr>"


subsection \<open>The factory\<close>

text \<open>
  A scenario class as \<^verbatim>\<open>make_test_scenario\<close> sees it: whether it is a subclass of
  TestScenario, the parameter names of its \<^verbatim>\<open>__init__\<close> in the order of
  \<^verbatim>\<open>inspect.signature\<close> (with \<^verbatim>\<open>self\<close>), and its constructor, foreign code that
  is given the keyword arguments, may act on the world, and returns the new scenario or
  raises. \<^verbatim>\<open>inspection.import_submodules\<close> and
  \<^verbatim>\<open>inspection.get_module_object_by_name\<close> are in \<^verbatim>\<open>monitorlib/inspection.py\<close>,
  which is not among the sources: the resolution of the declared type name is an argument
  of the factory, a function that gives the class or raises (an object that is not a
  class at all is not represented). The resource pool is a dictionary whose key order
  shows in the error message: an association list.
\<close>

record ('r, 'w) ScenarioClass =
  class_name :: string
  is_TestScenario_subclass :: bool
  init_parameters :: "string list"
  construct :: "(string \<rightharpoonup> 'r) \<Rightarrow> 'w \<Rightarrow> (exn + 'w TestScenario) \<times> 'w"

text \<open>\<^verbatim>\<open>sep.join(xs)\<close>\<close>

fun join :: "string \<Rightarrow> string list \<Rightarrow> string" where
  "join sep [] = []"
| "join sep [x] = x"
| "join sep (x # y # ys) = x @ sep @ join sep (y # ys)"

text \<open>
  The loop over the constructor's parameters: \<^verbatim>\<open>self\<close> is skipped, a name that is
  not a key of the pool raises, any other name is bound to its resource.
\<close>

fun constructor_arguments ::
  "string \<Rightarrow> (string \<times> 'r) list \<Rightarrow> string list \<Rightarrow> (string \<rightharpoonup> 'r)
     \<Rightarrow> exn + (string \<rightharpoonup> 'r)" where
  "constructor_arguments st resource_pool [] constructor_args = Inr constructor_args"
| "constructor_arguments st resource_pool (arg_name # rest) constructor_args =
     (if arg_name = ''self'' then constructor_arguments st resource_pool rest constructor_args
      else
        (case map_of resource_pool arg_name of
           None \<Rightarrow>
             Inl (ValueError
                    (ResourceNotFound arg_name st (join '', '' (map fst resource_pool))))
         | Some resource \<Rightarrow>
             constructor_arguments st resource_pool rest
               (constructor_args(arg_name \<mapsto> resource))))"

definition make_test_scenario ::
  "(string \<Rightarrow> exn + ('r, 'w) ScenarioClass) \<Rightarrow> TestScenarioDeclaration
     \<Rightarrow> (string \<times> 'r) list \<Rightarrow> 'w \<Rightarrow> (exn + 'w TestScenario) \<times> 'w" where
  "make_test_scenario get_module_object_by_name declaration resource_pool w =
     (case get_module_object_by_name (scenario_type declaration) of
        Inl e \<Rightarrow> (Inl e, w)
      | Inr scenario_class \<Rightarrow>
         if \<not> is_TestScenario_subclass scenario_class
         then (Inl (NotImplementedError (NotATestScenario (class_name scenario_class))), w)
         else
           (case constructor_arguments (scenario_type declaration) resource_pool
                   (init_parameters scenario_class) Map.empty of
              Inl e \<Rightarrow> (Inl e, w)
            | Inr constructor_args \<Rightarrow>
               (case construct scenario_class constructor_args w of
                  (Inl e, w') \<Rightarrow> (Inl e, w')
                | (Inr scenario, w') \<Rightarrow>
                    (Inr (scenario\<lparr>scn_declaration := Some declaration\<rparr>), w'))))"

subsection \<open>Scenario discovery\<close>











subsection \<open>An example scenario\<close>

text \<open>
  The documentation of the spec's end-to-end examples: one case "Setup" with one step
  "Clear area" and one check "Area is clear", and no cleanup step.
\<close>

definition example_documentation :: TestScenarioDocumentation where
  "example_documentation =
     \<lparr>doc_name = ''Example'', doc_url = ''example.md'',
      doc_cases =
        [\<lparr>case_name = ''Setup'', case_url = ''example.md#setup'',
          case_steps =
            [\<lparr>step_name = ''Clear area'', step_url = ''example.md#clear-area'',
              step_checks =
                [\<lparr>check_name = ''Area is clear'', check_url = ''example.md#area-is-clear'',
                  applicable_requirements = [''REQ1'']\<rparr>]\<rparr>]\<rparr>],
      doc_cleanup = None\<rparr>"

definition example_scenario :: "nat TestScenario" where
  "example_scenario =
     (TestScenario_init example_documentation TestScenario_new)
       \<lparr>scn_declaration := Some \<lparr>scenario_type = ''scenarios.Example''\<rparr>\<rparr>"

text \<open>
  States of the example scenario along the run of the spec's first example: after
  \<^verbatim>\<open>begin_test_scenario\<close>, inside the step "Clear area", and after the case
  "Setup" has ended.
\<close>

definition example_ready :: "nat TestScenario" where
  "example_ready = snd (begin_test_scenario 10 example_scenario)"

definition example_in_step :: "nat TestScenario" where
  "example_in_step =
     snd (begin_test_step ''Clear area'' 12 (snd (begin_test_case ''Setup'' 11 example_ready)))"

definition example_after_setup :: "nat TestScenario" where
  "example_after_setup = snd (end_test_case 14 (snd (end_test_step 13 example_in_step)))"

text \<open>
  An observer that returns normally and adds the time of the failed check it is given to
  its world, a number; and the handle that \<^verbatim>\<open>check\<close> returns for "Area is clear"
  inside the step when that observer is installed.
\<close>

definition example_observer :: "nat observer" where
  "example_observer failed_check w = (None, w + failed_timestamp failed_check)"

definition example_handle :: "nat PendingCheck" where
  "example_handle =
     \<lparr>pc_documentation =
        \<lparr>check_name = ''Area is clear'', check_url = ''example.md#area-is-clear'',
         applicable_requirements = [''REQ1'']\<rparr>,
      pc_step_report = Some 0,
      pc_on_failed_check = Some example_observer,
      pc_participants = [''uss1''],
      outcome_recorded = False\<rparr>"

text \<open>Two bodies of a \<^verbatim>\<open>with\<close> block that record no outcome: one returns, one raises.\<close>

definition example_body_returns ::
  "nat PendingCheck \<Rightarrow> nat TestScenario \<Rightarrow> nat
     \<Rightarrow> (exn + unit) \<times> nat PendingCheck \<times> nat TestScenario \<times> nat" where
  "example_body_returns h s w = (Inr (), h, s, w)"

definition example_body_raises ::
  "nat PendingCheck \<Rightarrow> nat TestScenario \<Rightarrow> nat
     \<Rightarrow> (exn + unit) \<times> nat PendingCheck \<times> nat TestScenario \<times> nat" where
  "example_body_raises h s w = (Inl (ForeignException ''connection lost''), h, s, w)"

text \<open>Two calls of \<^verbatim>\<open>record_passed\<close> on the same handle, one after the other.\<close>

definition example_first_outcome ::
  "(exn + unit) \<times> nat PendingCheck \<times> nat TestScenario" where
  "example_first_outcome = record_passed None None example_handle example_in_step"

definition example_second_outcome ::
  "(exn + unit) \<times> nat PendingCheck \<times> nat TestScenario" where
  "example_second_outcome =
     record_passed None None (fst (snd example_first_outcome)) (snd (snd example_first_outcome))"

text \<open>
  Complete runs of the example: the spec's first example (the check passes by default),
  its second example (a High failure, then \<^verbatim>\<open>go_to_cleanup\<close> and
  \<^verbatim>\<open>skip_cleanup\<close>), and a run with a Low failure only.
\<close>

definition example_passed_complete :: "nat TestScenario" where
  "example_passed_complete =
     snd (skip_cleanup (snd (end_test_scenario 24 (snd (end_test_case 23 (snd (end_test_step 22
       (fst (snd (snd (with_check example_handle example_body_returns example_in_step 0)))))))))))"

definition example_high_failure :: "nat TestScenario" where
  "example_high_failure =
     fst (snd (snd (record_failed ''area not clear'' High [] None None None None 20
                      example_handle example_in_step 0)))"

definition example_aborted :: "nat TestScenario" where
  "example_aborted = snd (skip_cleanup (snd (go_to_cleanup example_high_failure)))"

definition example_low_complete :: "nat TestScenario" where
  "example_low_complete =
     snd (skip_cleanup (snd (end_test_scenario 24 (snd (end_test_case 23 (snd (end_test_step 22
       (fst (snd (snd (record_failed ''slow answer'' Low [] None None None None 20
                         example_handle example_in_step 0)))))))))))"

text \<open>
  The same scenario with a documented cleanup step and its check "Flights removed"; a run
  with no test case in which that check fails with High severity during cleanup, and the
  cleanup is ended afterwards.
\<close>

definition example_cleanup_check :: TestCheckDocumentation where
  "example_cleanup_check =
     \<lparr>check_name = ''Flights removed'', check_url = ''example.md#flights-removed'',
      applicable_requirements = [''REQ2'']\<rparr>"

definition example_cleanup_scenario :: "nat TestScenario" where
  "example_cleanup_scenario =
     example_scenario
       \<lparr>documentation := Some
          (example_documentation
             \<lparr>doc_cleanup := Some
                \<lparr>step_name = ''Cleanup'', step_url = ''example.md#cleanup'',
                 step_checks = [example_cleanup_check]\<rparr>\<rparr>)\<rparr>"

definition example_cleaning_up :: "nat TestScenario" where
  "example_cleaning_up =
     snd (begin_cleanup 12 (snd (end_test_scenario 11
       (snd (begin_test_scenario 10 example_cleanup_scenario)))))"

definition example_cleanup_handle :: "nat PendingCheck" where
  "example_cleanup_handle =
     \<lparr>pc_documentation = example_cleanup_check,
      pc_step_report = Some 0,
      pc_on_failed_check = None,
      pc_participants = [],
      outcome_recorded = False\<rparr>"

definition example_cleanup_failed :: "nat TestScenario" where
  "example_cleanup_failed =
     snd (end_cleanup 14
       (fst (snd (snd (record_failed ''flight still there'' High [] None None None None 13
                         example_cleanup_handle example_cleaning_up 0)))))"

text \<open>
  The example handle after an outcome has been recorded on it.
\<close>

definition example_recorded_handle :: "nat PendingCheck" where
  "example_recorded_handle = example_handle\<lparr>outcome_recorded := True\<rparr>"

text \<open>
  A documentation with a second case, "Plan first flight", and the state of a scenario
  with it after the case "Setup" has begun and ended.
\<close>

definition example_two_case_documentation :: TestScenarioDocumentation where
  "example_two_case_documentation =
     example_documentation
       \<lparr>doc_cases := doc_cases example_documentation @
          [\<lparr>case_name = ''Plan first flight'', case_url = ''example.md#plan-first-flight'',
            case_steps =
              [\<lparr>step_name = ''Inject flight intent'', step_url = ''example.md#inject'',
                step_checks = []\<rparr>]\<rparr>]\<rparr>"

definition example_two_case_scenario :: "nat TestScenario" where
  "example_two_case_scenario =
     (TestScenario_init example_two_case_documentation TestScenario_new)
       \<lparr>scn_declaration := Some \<lparr>scenario_type = ''scenarios.Example''\<rparr>\<rparr>"

definition example_setup_done :: "nat TestScenario" where
  "example_setup_done =
     snd (end_test_case 14 (snd (begin_test_case ''Setup'' 11
       (snd (begin_test_scenario 10 example_two_case_scenario)))))"

text \<open>
  A scenario class with the constructor parameters of NominalPlanningPriority
  (\<^verbatim>\<open>nominal_planning_priority.py\<close>); its constructor here counts its calls in the
  world and returns the example scenario as \<^verbatim>\<open>TestScenario.__init__\<close> leaves it.
\<close>

definition example_constructor ::
  "(string \<rightharpoonup> string) \<Rightarrow> nat \<Rightarrow> (exn + nat TestScenario) \<times> nat" where
  "example_constructor args w = (Inr (TestScenario_init example_documentation TestScenario_new), Suc w)"

definition example_class :: "(string, nat) ScenarioClass" where
  "example_class =
     \<lparr>class_name = ''NominalPlanningPriority'',
      is_TestScenario_subclass = True,
      init_parameters = [''self'', ''flight_intents'', ''uss1'', ''uss2'', ''dss''],
      construct = example_constructor\<rparr>"

definition example_lookup :: "string \<Rightarrow> exn + (string, nat) ScenarioClass" where
  "example_lookup object_name =
     (if object_name = ''scenarios.astm.utm.NominalPlanningPriority'' then Inr example_class
      else Inl (ValueError (NotATestScenario object_name)))"

definition example_declaration :: TestScenarioDeclaration where
  "example_declaration = \<lparr>scenario_type = ''scenarios.astm.utm.NominalPlanningPriority''\<rparr>"

definition example_pool :: "(string \<times> string) list" where
  "example_pool =
     [(''flight_intents'', ''FlightIntentsResource''), (''uss1'', ''FlightPlannerResource''),
      (''uss2'', ''FlightPlannerResource''), (''dss'', ''DSSInstanceResource'')]"

text \<open>
  The object of a scenario class whose constructor did not call
  \<^verbatim>\<open>TestScenario.__init__\<close>, after the factory has bound its declaration: the
  phase is still Undefined and the documentation unbound.
\<close>

definition example_uninitialised :: "nat TestScenario" where
  "example_uninitialised = TestScenario_new\<lparr>scn_declaration := Some example_declaration\<rparr>"





subsection \<open>Vocabulary of the properties\<close>

text \<open>
  An operation is rejected as a protocol violation when it raises the RuntimeError of
  \<^verbatim>\<open>_expect_phase\<close> and leaves the whole state, phase, attributes and stored report
  objects, as it was.
\<close>

definition rejected ::
  "string \<Rightarrow> ScenarioPhase set \<Rightarrow> (exn + 'a) \<times> 'w TestScenario \<Rightarrow> 'w TestScenario \<Rightarrow> bool" where
  "rejected caller valid outcome s \<longleftrightarrow>
     outcome = (Inl (RuntimeError (WrongPhase (phase s) caller valid)), s)"

text \<open>
  What the failure observer of a handle does when it is given a failed check in world
  \<open>w\<close>: the exception it raises, if any, and the world it leaves. A handle without
  observer raises nothing and leaves the world as it is.
\<close>

definition observer_raised :: "'w PendingCheck \<Rightarrow> FailedCheck \<Rightarrow> 'w \<Rightarrow> exn option" where
  "observer_raised h failed_check w =
     (case pc_on_failed_check h of
        None \<Rightarrow> None
      | Some observer \<Rightarrow> fst (observer failed_check w))"

definition world_after_observer :: "'w PendingCheck \<Rightarrow> FailedCheck \<Rightarrow> 'w \<Rightarrow> 'w" where
  "world_after_observer h failed_check w =
     (case pc_on_failed_check h of
        None \<Rightarrow> w
      | Some observer \<Rightarrow> snd (observer failed_check w))"

text \<open>
  A report has a serious failure when a failed check that is not Low is found in a step
  of one of its cases or in its cleanup step; report objects are looked up in the stores.
\<close>

definition has_serious_failure ::
  "(addr \<Rightarrow> TestCaseReport) \<Rightarrow> (addr \<Rightarrow> TestStepReport) \<Rightarrow> TestScenarioReport \<Rightarrow> bool" where
  "has_serious_failure cs st r \<longleftrightarrow>
     (\<exists>c \<in> set (rep_cases r). \<exists>a \<in> set (cr_steps (cs c)).
        \<exists>fc \<in> set (failed_checks (st a)). failed_severity fc \<noteq> Low)
     \<or> (\<exists>a. rep_cleanup r = Some a
            \<and> (\<exists>fc \<in> set (failed_checks (st a)). failed_severity fc \<noteq> Low))"

definition no_error_recorded :: "'w TestScenario \<Rightarrow> bool" where
  "no_error_recorded s \<longleftrightarrow>
     (case scenario_report s of None \<Rightarrow> True | Some r \<Rightarrow> execution_error r = None)"

text \<open>
  The dependencies a scenario class declares are its constructor's parameters other than
  \<^verbatim>\<open>self\<close>; when all of them are keys of the pool, the constructor is given
  exactly these, each with its resource.
\<close>

definition dependencies :: "('r, 'w) ScenarioClass \<Rightarrow> string list" where
  "dependencies c = filter (\<lambda>n. n \<noteq> ''self'') (init_parameters c)"

definition resolved_arguments ::
  "(string \<times> 'r) list \<Rightarrow> string list \<Rightarrow> (string \<rightharpoonup> 'r)" where
  "resolved_arguments resource_pool names =
     (\<lambda>n. if n \<in> set names then map_of resource_pool n else None)"


subsection \<open>Reachable states\<close>

text \<open>
  The states a driver can bring a scenario into: the scenario as its constructor and the
  factory leave it (documentation and declaration bound, phase NotStarted, any observer
  installed), and then any sequence of the operations, failed calls included, and of
  outcome recordings on pending checks.
\<close>

inductive reachable :: "'w TestScenario \<Rightarrow> bool" where
  constructed:
    "reachable ((TestScenario_init doc TestScenario_new)
                  \<lparr>scn_declaration := Some decl, on_failed_check := observer\<rparr>)"
| begin_test_scenario: "reachable s \<Longrightarrow> reachable (snd (begin_test_scenario now s))"
| record_note: "reachable s \<Longrightarrow> reachable (snd (record_note key msg now s))"
| begin_test_case: "reachable s \<Longrightarrow> reachable (snd (begin_test_case name now s))"
| begin_test_step: "reachable s \<Longrightarrow> reachable (snd (begin_test_step name now s))"
| record_query: "reachable s \<Longrightarrow> reachable (snd (record_query query s))"
| check: "reachable s \<Longrightarrow> reachable (snd (check name participants s))"
| end_test_step: "reachable s \<Longrightarrow> reachable (snd (end_test_step now s))"
| end_test_case: "reachable s \<Longrightarrow> reachable (snd (end_test_case now s))"
| end_test_scenario: "reachable s \<Longrightarrow> reachable (snd (end_test_scenario now s))"
| go_to_cleanup: "reachable s \<Longrightarrow> reachable (snd (go_to_cleanup s))"
| begin_cleanup: "reachable s \<Longrightarrow> reachable (snd (begin_cleanup now s))"
| skip_cleanup: "reachable s \<Longrightarrow> reachable (snd (skip_cleanup s))"
| end_cleanup: "reachable s \<Longrightarrow> reachable (snd (end_cleanup now s))"
| record_execution_error: "reachable s \<Longrightarrow> reachable (snd (record_execution_error e now s))"
| get_report: "reachable s \<Longrightarrow> reachable (snd (get_report now s))"
| record_failed:
    "reachable s \<Longrightarrow>
     reachable (fst (snd (snd (record_failed summary severity details participants
                                 query_timestamps additional_data requirements now h s w))))"
| record_passed:
    "reachable s \<Longrightarrow> reachable (snd (snd (record_passed participants requirements h s)))"

text \<open>
  What holds in every reachable state: documentation and declaration are bound, the
  report exists exactly from \<^verbatim>\<open>begin_test_scenario\<close> on, the case and step
  references are set in the phases that use them, and the addresses in the case list are
  allocated.
\<close>

definition consistent :: "'w TestScenario \<Rightarrow> bool" where
  "consistent s \<longleftrightarrow>
     documentation s \<noteq> None \<and> scn_declaration s \<noteq> None
     \<and> phase s \<noteq> Undefined
     \<and> (phase s = NotStarted \<longleftrightarrow> scenario_report s = None)
     \<and> (phase s \<in> {ReadyForTestStep, RunningTestStep} \<longrightarrow>
          case_report s \<noteq> None \<and> current_case s \<noteq> None)
     \<and> (phase s \<in> {RunningTestStep, CleaningUp} \<longrightarrow>
          step_report s \<noteq> None \<and> current_step s \<noteq> None)
     \<and> (\<forall>r. scenario_report s = Some r \<longrightarrow> (\<forall>a \<in> set (rep_cases r). a < case_next s))"

section \<open>Properties\<close>

subsection \<open>Phase protocol\<close>

text \<open>
  C1. Each of the twelve phase-checked operations, called in a phase outside the valid
  source phases the transition table gives for it, raises the protocol-violation error and
  leaves the phase and every report object unchanged.
\<close>

theorem wrong_phase_rejected:
  "(phase s \<notin> {NotStarted} \<longrightarrow>
      rejected ''begin_test_scenario'' {NotStarted} (begin_test_scenario now s) s)
   \<and> (phase s \<notin> {ReadyForTestCase} \<longrightarrow>
      rejected ''begin_test_case'' {ReadyForTestCase} (begin_test_case name now s) s)
   \<and> (phase s \<notin> {ReadyForTestStep} \<longrightarrow>
      rejected ''begin_test_step'' {ReadyForTestStep} (begin_test_step step now s) s)
   \<and> (phase s \<notin> {RunningTestStep} \<longrightarrow>
      rejected ''end_test_step'' {RunningTestStep} (end_test_step now s) s)
   \<and> (phase s \<notin> {ReadyForTestStep} \<longrightarrow>
      rejected ''end_test_case'' {ReadyForTestStep} (end_test_case now s) s)
   \<and> (phase s \<notin> {ReadyForTestCase} \<longrightarrow>
      rejected ''end_test_scenario'' {ReadyForTestCase} (end_test_scenario now s) s)
   \<and> (phase s \<notin> {ReadyForTestCase, ReadyForTestStep, RunningTestStep, ReadyForCleanup} \<longrightarrow>
      rejected ''go_to_cleanup''
        {ReadyForTestCase, ReadyForTestStep, RunningTestStep, ReadyForCleanup}
        (go_to_cleanup s) s)
   \<and> (phase s \<notin> {ReadyForCleanup} \<longrightarrow>
      rejected ''begin_cleanup'' {ReadyForCleanup} (begin_cleanup now s) s)
   \<and> (phase s \<notin> {ReadyForCleanup} \<longrightarrow>
      rejected ''skip_cleanup'' {ReadyForCleanup} (skip_cleanup s) s)
   \<and> (phase s \<notin> {CleaningUp} \<longrightarrow>
      rejected ''end_cleanup'' {CleaningUp} (end_cleanup now s) s)
   \<and> (phase s \<notin> {RunningTestStep, CleaningUp} \<longrightarrow>
      rejected ''record_query'' {RunningTestStep, CleaningUp} (record_query query s) s)
   \<and> (phase s \<notin> {RunningTestStep, CleaningUp} \<longrightarrow>
      rejected ''check'' {RunningTestStep, CleaningUp} (check chk participants s) s)"
  by (simp add: rejected_def expect_phase_def begin_test_scenario_def begin_test_case_def
      begin_test_step_def end_test_step_def end_test_case_def end_test_scenario_def
      go_to_cleanup_def begin_cleanup_def skip_cleanup_def end_cleanup_def record_query_def
      check_def)

text \<open>
  In phase Complete every one of the twelve operations is rejected.
\<close>

theorem wrong_phase_rejected_witness:
  "(let s = example_scenario\<lparr>phase := Complete\<rparr>;
        q = \<lparr>query_method = ''GET'', query_url = ''http://uss'', query_status_code = 200\<rparr>
    in rejected ''begin_test_scenario'' {NotStarted} (begin_test_scenario 7 s) s
     \<and> rejected ''begin_test_case'' {ReadyForTestCase} (begin_test_case ''Setup'' 7 s) s
     \<and> rejected ''begin_test_step'' {ReadyForTestStep} (begin_test_step ''Clear area'' 7 s) s
     \<and> rejected ''end_test_step'' {RunningTestStep} (end_test_step 7 s) s
     \<and> rejected ''end_test_case'' {ReadyForTestStep} (end_test_case 7 s) s
     \<and> rejected ''end_test_scenario'' {ReadyForTestCase} (end_test_scenario 7 s) s
     \<and> rejected ''go_to_cleanup''
          {ReadyForTestCase, ReadyForTestStep, RunningTestStep, ReadyForCleanup}
          (go_to_cleanup s) s
     \<and> rejected ''begin_cleanup'' {ReadyForCleanup} (begin_cleanup 7 s) s
     \<and> rejected ''skip_cleanup'' {ReadyForCleanup} (skip_cleanup s) s
     \<and> rejected ''end_cleanup'' {CleaningUp} (end_cleanup 7 s) s
     \<and> rejected ''record_query'' {RunningTestStep, CleaningUp} (record_query q s) s
     \<and> rejected ''check'' {RunningTestStep, CleaningUp} (check ''Area is clear'' None s) s)"
  using wrong_phase_rejected
    [where s = "example_scenario\<lparr>phase := Complete\<rparr>" and now = 7
       and name = "''Setup''" and step = "''Clear area''" and chk = "''Area is clear''"
       and participants = None
       and query = "\<lparr>query_method = ''GET'', query_url = ''http://uss'',
                      query_status_code = 200\<rparr>"]
  by (simp add: Let_def)

subsection \<open>The example states\<close>

lemmas example_defs =
  example_documentation_def example_scenario_def TestScenario_init_def TestScenario_new_def
  example_ready_def example_in_step_def example_after_setup_def
  begin_test_scenario_def make_scenario_report_def expect_phase_def begin_test_case_def
  begin_test_step_def end_test_step_def end_test_case_def by_name_def

lemma example_ready_eq:
  "example_ready =
     example_scenario
       \<lparr>scenario_report := Some
           \<lparr>rep_name = ''Example'', rep_scenario_type = ''scenarios.Example'',
            rep_documentation_url = ''example.md'', rep_start_time = 10, rep_end_time = None,
            rep_cases = [], rep_notes = None, rep_cleanup = None, execution_error = None,
            successful = None\<rparr>,
        phase := ReadyForTestCase\<rparr>"
  by (simp add: example_defs)

lemma example_ready_fields:
  "phase example_ready = ReadyForTestCase"
  "documentation example_ready = Some example_documentation"
  "scenario_report example_ready = Some
           \<lparr>rep_name = ''Example'', rep_scenario_type = ''scenarios.Example'',
            rep_documentation_url = ''example.md'', rep_start_time = 10, rep_end_time = None,
            rep_cases = [], rep_notes = None, rep_cleanup = None, execution_error = None,
            successful = None\<rparr>"
  by (simp_all add: example_ready_eq example_scenario_def TestScenario_init_def)

lemma example_in_step_fields:
  "phase example_in_step = RunningTestStep"
  "step_report example_in_step = Some 0"
  "case_report example_in_step = Some 0"
  "cr_steps (case_store example_in_step 0) = [0]"
  "failed_checks (step_store example_in_step 0) = []"
  "passed_checks (step_store example_in_step 0) = []"
  by (simp_all add: example_defs)

lemma example_after_setup_fields:
  "phase example_after_setup = ReadyForTestCase"
  "documentation example_after_setup = Some example_documentation"
  "scenario_report example_after_setup = Some
           \<lparr>rep_name = ''Example'', rep_scenario_type = ''scenarios.Example'',
            rep_documentation_url = ''example.md'', rep_start_time = 10, rep_end_time = None,
            rep_cases = [0], rep_notes = None, rep_cleanup = None, execution_error = None,
            successful = None\<rparr>"
  "cr_name (case_store example_after_setup 0) = ''Setup''"
  "case_next example_after_setup = 1"
  by (simp_all add: example_defs)

subsection \<open>Documented names\<close>

lemma by_name_None: "by_name nm xs k = None \<longleftrightarrow> k \<notin> set (map nm xs)"
  by (force simp: by_name_def map_of_eq_None_iff image_iff)

lemma by_name_Some: "by_name nm xs k = Some c \<Longrightarrow> c \<in> set xs \<and> nm c = k"
  unfolding by_name_def by (auto dest!: map_of_SomeD)

subsection \<open>Pending checks\<close>

lemma example_check:
  "check ''Area is clear'' (Some [''uss1''])
     (example_in_step\<lparr>on_failed_check := Some example_observer\<rparr>) =
   (Inr example_handle, example_in_step\<lparr>on_failed_check := Some example_observer\<rparr>)"
  by (simp add: check_def example_handle_def example_defs)

lemma check_handle:
  "check name participants s = (Inr h, s') \<Longrightarrow>
     s' = s \<and> \<not> outcome_recorded h \<and> pc_step_report h = step_report s
     \<and> pc_on_failed_check h = on_failed_check s"
  by (auto simp add: check_def split: sum.splits option.splits)

lemma example_handle_bound: "pc_step_report example_handle = Some 0"
  by (simp add: example_handle_def)

lemma example_observer_returns: "observer_raised example_handle fc w = None"
  by (simp add: observer_raised_def example_handle_def example_observer_def)

lemma example_observer_world:
  "world_after_observer example_handle fc w = w + failed_timestamp fc"
  by (simp add: world_after_observer_def example_handle_def example_observer_def)

lemma record_failed_bound:
  assumes bound: "pc_step_report h = Some a"
    and fc: "fc = \<lparr>failed_name = check_name (pc_documentation h),
             failed_documentation_url = check_url (pc_documentation h),
             failed_timestamp = now,
             failed_summary = summary,
             failed_details = details,
             failed_requirements =
               (case requirements of
                  None \<Rightarrow> applicable_requirements (pc_documentation h)
                | Some rs \<Rightarrow> rs),
             failed_severity = severity,
             failed_participants =
               (case participants of None \<Rightarrow> pc_participants h | Some ps \<Rightarrow> ps),
             failed_additional_data = additional_data,
             failed_query_report_timestamps = query_timestamps\<rparr>"
  shows "record_failed summary severity details participants query_timestamps
             additional_data requirements now h s w =
     ((case observer_raised h fc w of
         Some e \<Rightarrow> Inl e
       | None \<Rightarrow>
          (case severity of
             Low \<Rightarrow> Inr ()
           | High \<Rightarrow> Inl (ScenarioCannotContinueError (SeverityIssue severity summary))
           | Critical \<Rightarrow> Inl (TestRunCannotContinueError (SeverityIssue severity summary)))),
      h\<lparr>outcome_recorded := True\<rparr>,
      s\<lparr>step_store := (step_store s)
           (a := (step_store s a)\<lparr>failed_checks := failed_checks (step_store s a) @ [fc]\<rparr>)\<rparr>,
      world_after_observer h fc w)"
  using bound unfolding fc
  by (cases severity)
     (simp_all add: record_failed_def Let_def observer_raised_def world_after_observer_def
        split: prod.split option.split)

text \<open>
  C3. \<^verbatim>\<open>record_failed\<close> on a handle bound to a step report appends exactly one
  FailedCheck (with the given summary and severity) to that step report and changes no
  other report; then the failure observer, if set, is run on that FailedCheck; only when
  the observer has returned is the severity looked at: Low returns, High raises
  ScenarioCannotContinueError, Critical raises TestRunCannotContinueError, and the two
  exceptions are different. An exception of the observer leaves \<^verbatim>\<open>record_failed\<close>
  with the FailedCheck already appended.
\<close>

theorem record_failed_spec:
  assumes bound: "pc_step_report h = Some a"
  shows
    "(case record_failed summary severity details participants query_timestamps
             additional_data requirements now h s w of
        (res, h', s', w') \<Rightarrow>
          (\<exists>fc. failed_name fc = check_name (pc_documentation h)
             \<and> failed_summary fc = summary \<and> failed_severity fc = severity
             \<and> failed_timestamp fc = now
             \<and> failed_checks (step_store s' a) = failed_checks (step_store s a) @ [fc]
             \<and> passed_checks (step_store s' a) = passed_checks (step_store s a)
             \<and> (\<forall>b. b \<noteq> a \<longrightarrow> step_store s' b = step_store s b)
             \<and> s' = s\<lparr>step_store := step_store s'\<rparr>
             \<and> h' = h\<lparr>outcome_recorded := True\<rparr>
             \<and> w' = world_after_observer h fc w
             \<and> (\<forall>e. observer_raised h fc w = Some e \<longrightarrow> res = Inl e)
             \<and> (observer_raised h fc w = None \<longrightarrow>
                  (severity = Low \<longrightarrow> res = Inr ())
                  \<and> (severity = High \<longrightarrow>
                       res = Inl (ScenarioCannotContinueError (SeverityIssue High summary)))
                  \<and> (severity = Critical \<longrightarrow>
                       res = Inl (TestRunCannotContinueError (SeverityIssue Critical summary))))))
     \<and> (\<forall>m m'. ScenarioCannotContinueError m \<noteq> TestRunCannotContinueError m')"
proof -
  define fc where "fc = \<lparr>failed_name = check_name (pc_documentation h),
             failed_documentation_url = check_url (pc_documentation h),
             failed_timestamp = now,
             failed_summary = summary,
             failed_details = details,
             failed_requirements =
               (case requirements of
                  None \<Rightarrow> applicable_requirements (pc_documentation h)
                | Some rs \<Rightarrow> rs),
             failed_severity = severity,
             failed_participants =
               (case participants of None \<Rightarrow> pc_participants h | Some ps \<Rightarrow> ps),
             failed_additional_data = additional_data,
             failed_query_report_timestamps = query_timestamps\<rparr>"
  have sel: "failed_name fc = check_name (pc_documentation h)" "failed_summary fc = summary"
    "failed_severity fc = severity" "failed_timestamp fc = now"
    by (simp_all add: fc_def)
  show ?thesis
    unfolding record_failed_bound [OF bound fc_def]
    apply (simp only: prod.case)
    apply (rule conjI)
     apply (rule exI[of _ fc])
     apply (simp add: sel)
    apply simp
    done
qed

text \<open>
  On the example handle, whose observer returns: the three severities, the appended
  check, and the observer's world after the call.
\<close>

theorem record_failed_spec_witness:
  "fst (record_failed ''area not clear'' Low [] None None None None 20
          example_handle example_in_step 0) = Inr ()
   \<and> fst (record_failed ''area not clear'' High [] None None None None 20
          example_handle example_in_step 0)
       = Inl (ScenarioCannotContinueError (SeverityIssue High ''area not clear''))
   \<and> fst (record_failed ''area not clear'' Critical [] None None None None 20
          example_handle example_in_step 0)
       = Inl (TestRunCannotContinueError (SeverityIssue Critical ''area not clear''))
   \<and> map failed_severity (failed_checks (step_store (fst (snd (snd
         (record_failed ''area not clear'' High [] None None None None 20
            example_handle example_in_step 0)))) 0)) = [High]
   \<and> snd (snd (snd (record_failed ''area not clear'' High [] None None None None 20
          example_handle example_in_step 0))) = 20"
  using record_failed_spec [OF example_handle_bound, where summary = "''area not clear''"
      and severity = Low and details = "[]" and participants = None and query_timestamps = None
      and additional_data = None and requirements = None and now = 20
      and s = example_in_step and w = 0]
    record_failed_spec [OF example_handle_bound, where summary = "''area not clear''"
      and severity = High and details = "[]" and participants = None and query_timestamps = None
      and additional_data = None and requirements = None and now = 20
      and s = example_in_step and w = 0]
    record_failed_spec [OF example_handle_bound, where summary = "''area not clear''"
      and severity = Critical and details = "[]" and participants = None and query_timestamps = None
      and additional_data = None and requirements = None and now = 20
      and s = example_in_step and w = 0]
  by (auto simp add: example_observer_returns example_observer_world example_in_step_fields
      split: prod.splits)

text \<open>
  C4. A \<^verbatim>\<open>with\<close> block over a handle whose body records no outcome, so that the
  handle is still unrecorded when the body is left, appends exactly one PassedCheck to the
  bound step report at the end of the block, whether the body returned or raised
  (\<open>res\<close> is either); the body's exception is raised again afterwards.
\<close>

theorem unrecorded_check_passes_on_exit:
  assumes body: "body (PendingCheck_enter h) s w = (res, hb, sb, wb)"
    and unrecorded: "\<not> outcome_recorded hb"
    and bound: "pc_step_report hb = Some a"
  shows
    "with_check h body s w =
       (res, hb\<lparr>outcome_recorded := True\<rparr>,
        sb\<lparr>step_store := (step_store sb)
             (a := (step_store sb a)
                \<lparr>passed_checks := passed_checks (step_store sb a) @
                   [\<lparr>passed_name = check_name (pc_documentation hb),
                     passed_participants = pc_participants hb,
                     passed_requirements = applicable_requirements (pc_documentation hb)\<rparr>]\<rparr>)\<rparr>,
        wb)"
  using assms
  by (simp add: with_check_def PendingCheck_exit_def record_passed_def Let_def
      split: sum.split)

text \<open>A body that returns and a body that raises: one PassedCheck either way.\<close>

theorem unrecorded_check_passes_on_exit_witness:
  "fst (with_check example_handle example_body_returns example_in_step 0) = Inr ()
   \<and> map passed_name (passed_checks (step_store (fst (snd (snd
        (with_check example_handle example_body_returns example_in_step 0)))) 0))
       = [''Area is clear'']
   \<and> fst (with_check example_handle example_body_raises example_in_step 0)
       = Inl (ForeignException ''connection lost'')
   \<and> map passed_name (passed_checks (step_store (fst (snd (snd
        (with_check example_handle example_body_raises example_in_step 0)))) 0))
       = [''Area is clear'']"
  using unrecorded_check_passes_on_exit [where body = example_body_returns
      and h = example_handle and s = example_in_step and w = 0 and res = "Inr ()"
      and hb = example_handle and sb = example_in_step and wb = 0 and a = 0]
    unrecorded_check_passes_on_exit [where body = example_body_raises
      and h = example_handle and s = example_in_step and w = 0
      and res = "Inl (ForeignException ''connection lost'')"
      and hb = example_handle and sb = example_in_step and wb = 0 and a = 0]
  by (simp add: example_body_returns_def example_body_raises_def PendingCheck_enter_def
      example_handle_def example_in_step_fields)

text \<open>
  C5, as stated, fails: neither \<^verbatim>\<open>record_passed\<close> nor \<^verbatim>\<open>record_failed\<close>
  reads \<^verbatim>\<open>_outcome_recorded\<close>. A second \<^verbatim>\<open>record_passed\<close> on a handle that
  already has an outcome returns normally and the step report holds two PassedChecks.
\<close>

theorem second_outcome_counterexample:
  "outcome_recorded (fst (snd example_first_outcome))
   \<and> fst example_second_outcome = Inr ()
   \<and> map passed_name (passed_checks (step_store (snd (snd example_second_outcome)) 0))
       = [''Area is clear'', ''Area is clear'']"
  by (simp add: example_first_outcome_def example_second_outcome_def record_passed_def
      example_handle_def example_in_step_fields)

text \<open>
  C5, amended. Every call of \<^verbatim>\<open>record_passed\<close> or \<^verbatim>\<open>record_failed\<close> on a
  handle bound to a step report appends one more check record to that step report,
  whatever the handle's flag says, and sets the flag. Their outcome does not depend on the
  flag at all: \<^verbatim>\<open>record_passed\<close> returns normally, and \<^verbatim>\<open>record_failed\<close>
  raises what the observer raises or else what the severity dictates (nothing for Low,
  ScenarioCannotContinueError for High, TestRunCannotContinueError for Critical), never a
  protocol-violation error of its own. The flag only keeps \<^verbatim>\<open>__exit__\<close> from
  appending the automatic PassedCheck.
\<close>

theorem outcome_flag_only_guards_exit:
  assumes bound: "pc_step_report h = Some a"
  shows
    "(case record_passed participants requirements h s of
        (res, h', s') \<Rightarrow>
          res = Inr ()
          \<and> (\<exists>pc. passed_checks (step_store s' a) = passed_checks (step_store s a) @ [pc])
          \<and> outcome_recorded h')
     \<and> (case record_failed summary severity details participants query_timestamps
               additional_data requirements now h s w of
          (res, h', s', w') \<Rightarrow>
            (\<exists>fc. failed_checks (step_store s' a) = failed_checks (step_store s a) @ [fc]
               \<and> failed_severity fc = severity \<and> failed_summary fc = summary
               \<and> (\<forall>e. observer_raised h fc w = Some e \<longrightarrow> res = Inl e)
               \<and> (observer_raised h fc w = None \<longrightarrow>
                    (severity = Low \<longrightarrow> res = Inr ())
                    \<and> (severity = High \<longrightarrow>
                         res = Inl (ScenarioCannotContinueError (SeverityIssue High summary)))
                    \<and> (severity = Critical \<longrightarrow>
                         res = Inl (TestRunCannotContinueError
                                      (SeverityIssue Critical summary)))))
            \<and> outcome_recorded h')
     \<and> (\<forall>b. record_passed participants requirements (h\<lparr>outcome_recorded := b\<rparr>) s
              = record_passed participants requirements h s
            \<and> record_failed summary severity details participants query_timestamps
                 additional_data requirements now (h\<lparr>outcome_recorded := b\<rparr>) s w
              = record_failed summary severity details participants query_timestamps
                 additional_data requirements now h s w)
     \<and> (outcome_recorded h \<longrightarrow> PendingCheck_exit exc h s = (Inr (), h, s))"
proof (intro conjI)
  show "case record_passed participants requirements h s of
        (res, h', s') \<Rightarrow>
          res = Inr ()
          \<and> (\<exists>pc. passed_checks (step_store s' a) = passed_checks (step_store s a) @ [pc])
          \<and> outcome_recorded h'"
    using bound by (simp add: record_passed_def Let_def)
next
  show "case record_failed summary severity details participants query_timestamps
               additional_data requirements now h s w of
          (res, h', s', w') \<Rightarrow>
            (\<exists>fc. failed_checks (step_store s' a) = failed_checks (step_store s a) @ [fc]
               \<and> failed_severity fc = severity \<and> failed_summary fc = summary
               \<and> (\<forall>e. observer_raised h fc w = Some e \<longrightarrow> res = Inl e)
               \<and> (observer_raised h fc w = None \<longrightarrow>
                    (severity = Low \<longrightarrow> res = Inr ())
                    \<and> (severity = High \<longrightarrow>
                         res = Inl (ScenarioCannotContinueError (SeverityIssue High summary)))
                    \<and> (severity = Critical \<longrightarrow>
                         res = Inl (TestRunCannotContinueError
                                      (SeverityIssue Critical summary)))))
            \<and> outcome_recorded h'"
    unfolding record_failed_bound [OF bound refl] by (cases severity) auto
next
  show "\<forall>b. record_passed participants requirements (h\<lparr>outcome_recorded := b\<rparr>) s
              = record_passed participants requirements h s
            \<and> record_failed summary severity details participants query_timestamps
                 additional_data requirements now (h\<lparr>outcome_recorded := b\<rparr>) s w
              = record_failed summary severity details participants query_timestamps
                 additional_data requirements now h s w"
    by (simp add: record_passed_def record_failed_def Let_def)
next
  show "outcome_recorded h \<longrightarrow> PendingCheck_exit exc h s = (Inr (), h, s)"
    by (simp add: PendingCheck_exit_def)
qed

lemma example_recorded_handle_bound: "pc_step_report example_recorded_handle = Some 0"
  by (simp add: example_recorded_handle_def example_handle_def)

lemma example_recorded_handle_flag: "outcome_recorded example_recorded_handle"
  by (simp add: example_recorded_handle_def)

lemma example_recorded_observer_returns: "observer_raised example_recorded_handle fc w = None"
  by (simp add: observer_raised_def example_recorded_handle_def example_handle_def
      example_observer_def)

text \<open>
  On a handle whose outcome is already recorded: a pass, and a failure of each severity.
\<close>

theorem outcome_flag_only_guards_exit_witness:
  "outcome_recorded example_recorded_handle
   \<and> fst (record_passed None None example_recorded_handle example_in_step) = Inr ()
   \<and> fst (record_failed ''again'' Low [] None None None None 21
            example_recorded_handle example_in_step 0) = Inr ()
   \<and> fst (record_failed ''again'' High [] None None None None 21
            example_recorded_handle example_in_step 0)
       = Inl (ScenarioCannotContinueError (SeverityIssue High ''again''))
   \<and> fst (record_failed ''again'' Critical [] None None None None 21
            example_recorded_handle example_in_step 0)
       = Inl (TestRunCannotContinueError (SeverityIssue Critical ''again''))
   \<and> map failed_severity (failed_checks (step_store (fst (snd (snd
         (record_failed ''again'' High [] None None None None 21
            example_recorded_handle example_in_step 0)))) 0)) = [High]
   \<and> PendingCheck_exit None example_recorded_handle example_in_step
       = (Inr (), example_recorded_handle, example_in_step)"
  using outcome_flag_only_guards_exit [OF example_recorded_handle_bound,
      where participants = None and requirements = None and s = example_in_step
      and summary = "''again''" and severity = Low and details = "[]"
      and query_timestamps = None and additional_data = None and now = 21 and w = 0
      and exc = None]
    outcome_flag_only_guards_exit [OF example_recorded_handle_bound,
      where participants = None and requirements = None and s = example_in_step
      and summary = "''again''" and severity = High and details = "[]"
      and query_timestamps = None and additional_data = None and now = 21 and w = 0
      and exc = None]
    outcome_flag_only_guards_exit [OF example_recorded_handle_bound,
      where participants = None and requirements = None and s = example_in_step
      and summary = "''again''" and severity = Critical and details = "[]"
      and query_timestamps = None and additional_data = None and now = 21 and w = 0
      and exc = None]
  by (auto simp add: example_recorded_observer_returns example_in_step_fields
      example_recorded_handle_flag split: prod.splits)

subsection \<open>Notes\<close>

text \<open>
  C7 fails in phase NotStarted, which \<^verbatim>\<open>record_note\<close> lists among its valid
  phases: the scenario report is created by \<^verbatim>\<open>begin_test_scenario\<close> only, and
  \<^verbatim>\<open>"notes" not in self._scenario_report\<close> raises TypeError on None. On the
  example scenario as constructed:
\<close>

theorem record_note_not_started:
  "phase example_scenario = NotStarted
   \<and> record_note ''First USS'' ''uss1'' 5 example_scenario = (Inl TypeError, example_scenario)"
  by (simp add: record_note_def expect_phase_def example_scenario_def TestScenario_init_def
      TestScenario_new_def)

subsection \<open>Execution errors\<close>

text \<open>
  C10, as stated, fails in phase Undefined. A scenario is in that phase only as long as
  \<^verbatim>\<open>TestScenario.__init__\<close> has not run, and then its documentation is not bound:
  \<^verbatim>\<open>_make_scenario_report\<close> raises AttributeError, and no report is created. On the
  object of a subclass whose constructor never called \<^verbatim>\<open>TestScenario.__init__\<close>,
  as the factory returns it:
\<close>

theorem record_execution_error_undefined_counterexample:
  "phase example_uninitialised = Undefined
   \<and> scenario_report example_uninitialised = None
   \<and> record_execution_error (ForeignException ''boom'') 3 example_uninitialised
       = (Inl AttributeError, example_uninitialised)"
  by (simp add: example_uninitialised_def TestScenario_new_def record_execution_error_def
      make_scenario_report_def)

text \<open>
  The same for any scenario that has neither report nor documentation, or neither report
  nor declaration.
\<close>

lemma record_execution_error_unbound:
  assumes "phase s \<noteq> Complete" "scenario_report s = None"
    "documentation s = None \<or> scn_declaration s = None"
  shows "record_execution_error e now s = (Inl AttributeError, s)"
  using assms
  by (auto simp add: record_execution_error_def make_scenario_report_def split: option.splits)

subsection \<open>The final report\<close>

lemmas example_run_defs =
  example_passed_complete_def example_high_failure_def example_aborted_def
  example_low_complete_def with_check_def example_body_returns_def PendingCheck_enter_def
  PendingCheck_exit_def record_passed_def record_failed_def example_handle_def
  example_observer_def skip_cleanup_def go_to_cleanup_def end_test_scenario_def

lemma example_passed_complete_fields:
  "phase example_passed_complete = Complete"
  "map_option rep_cases (scenario_report example_passed_complete) = Some [0]"
  "map_option rep_cleanup (scenario_report example_passed_complete) = Some None"
  "map_option execution_error (scenario_report example_passed_complete) = Some None"
  "cr_steps (case_store example_passed_complete 0) = [0]"
  "failed_checks (step_store example_passed_complete 0) = []"
  "map passed_name (passed_checks (step_store example_passed_complete 0)) = [''Area is clear'']"
  by (simp_all add: example_run_defs example_defs)

lemma example_aborted_fields:
  "phase example_aborted = Complete"
  "map_option rep_cases (scenario_report example_aborted) = Some [0]"
  "map_option rep_cleanup (scenario_report example_aborted) = Some None"
  "map_option execution_error (scenario_report example_aborted) = Some None"
  "cr_steps (case_store example_aborted 0) = [0]"
  "map failed_severity (failed_checks (step_store example_aborted 0)) = [High]"
  by (simp_all add: example_run_defs example_defs)

lemma example_low_complete_fields:
  "phase example_low_complete = Complete"
  "map_option rep_cases (scenario_report example_low_complete) = Some [0]"
  "map_option rep_cleanup (scenario_report example_low_complete) = Some None"
  "map_option execution_error (scenario_report example_low_complete) = Some None"
  "cr_steps (case_store example_low_complete 0) = [0]"
  "map failed_severity (failed_checks (step_store example_low_complete 0)) = [Low]"
  by (simp_all add: example_run_defs example_defs)

lemma failed_checks_loop_eq:
  "failed_checks_loop fcs succ \<longleftrightarrow> succ \<and> (\<forall>fc \<in> set fcs. failed_severity fc = Low)"
  by (induction fcs arbitrary: succ) auto

lemma steps_loop_eq:
  "steps_loop st as succ \<longleftrightarrow>
     succ \<and> (\<forall>a \<in> set as. \<forall>fc \<in> set (failed_checks (st a)). failed_severity fc = Low)"
  by (induction as arbitrary: succ) (auto simp add: failed_checks_loop_eq)

lemma cases_loop_eq:
  "cases_loop cs st xs succ \<longleftrightarrow>
     succ \<and> (\<forall>c \<in> set xs. \<forall>a \<in> set (cr_steps (cs c)).
               \<forall>fc \<in> set (failed_checks (st a)). failed_severity fc = Low)"
  by (induction xs arbitrary: succ) (auto simp add: steps_loop_eq)

lemma evaluate_success_eq:
  "evaluate_success cs st r \<longleftrightarrow> execution_error r = None \<and> \<not> has_serious_failure cs st r"
  by (auto simp add: evaluate_success_def has_serious_failure_def cases_loop_eq
      failed_checks_loop_eq Let_def split: option.splits)

lemma get_report_with_report:
  assumes "scenario_report s = Some r0"
  shows "get_report now s =
    (let r1 = (if execution_error r0 = None \<and> phase s \<noteq> Complete
               then r0\<lparr>execution_error := Some (create_from_exception
                          (RuntimeError (WrongPhase (phase s) ''get_report'' {Complete}))),
                       successful := Some False\<rparr>
               else r0);
         r2 = r1\<lparr>successful := Some (evaluate_success (case_store s) (step_store s) r1)\<rparr>
     in (Inr r2,
         s\<lparr>scenario_report := Some r2,
           phase := (if execution_error r0 = None then Complete else phase s)\<rparr>))"
  using assms
  by (auto simp add: get_report_def expect_phase_def record_execution_error_def Let_def)


lemma get_report_without_report:
  assumes "scenario_report s = None" "documentation s = Some doc" "scn_declaration s = Some decl"
  shows "get_report now s =
     get_report now
       (s\<lparr>scenario_report := Some
            \<lparr>rep_name = doc_name doc,
             rep_scenario_type = scenario_type decl,
             rep_documentation_url = doc_url doc,
             rep_start_time = now,
             rep_end_time = None,
             rep_cases = [],
             rep_notes = None,
             rep_cleanup = None,
             execution_error = None,
             successful = None\<rparr>\<rparr>)"
  using assms by (simp add: get_report_def make_scenario_report_def)

lemma get_report_spec_with_report:
  assumes rep: "scenario_report s = Some r0"
  shows
    "\<exists>r s'. get_report now s = (Inr r, s')
       \<and> scenario_report s' = Some r
       \<and> case_store s' = case_store s \<and> step_store s' = step_store s
       \<and> (phase s \<noteq> Complete \<and> execution_error r0 = None \<longrightarrow>
            execution_error r = Some (create_from_exception
              (RuntimeError (WrongPhase (phase s) ''get_report'' {Complete})))
            \<and> phase s' = Complete)
       \<and> (phase s = Complete \<or> execution_error r0 \<noteq> None \<longrightarrow>
            execution_error r = execution_error r0 \<and> phase s' = phase s)
       \<and> rep_cases r = rep_cases r0 \<and> rep_cleanup r = rep_cleanup r0
       \<and> (successful r = Some False \<longleftrightarrow>
            execution_error r \<noteq> None
            \<or> has_serious_failure (case_store s') (step_store s') r)
       \<and> (successful r = Some True \<longleftrightarrow>
            \<not> (execution_error r \<noteq> None
               \<or> has_serious_failure (case_store s') (step_store s') r))"
  unfolding get_report_with_report [OF rep]
  by (auto simp add: Let_def evaluate_success_eq has_serious_failure_def)

text \<open>
  C6. \<^verbatim>\<open>get_report\<close> returns a report in every phase, on a scenario that has its
  report or has documentation and declaration bound to create one. When the phase is not
  Complete and no execution error is recorded yet, the error of the failed phase check is
  recorded first (and the phase becomes Complete); otherwise error and phase stay. The
  returned report is the stored one, and its \<^verbatim>\<open>successful\<close> flag is False exactly
  when it has an execution error or a serious failure, and True otherwise.
\<close>

theorem get_report_spec:
  assumes bound: "scenario_report s \<noteq> None
                  \<or> (documentation s \<noteq> None \<and> scn_declaration s \<noteq> None)"
  shows
    "\<exists>r s'. get_report now s = (Inr r, s')
       \<and> scenario_report s' = Some r
       \<and> case_store s' = case_store s \<and> step_store s' = step_store s
       \<and> (phase s \<noteq> Complete \<and> no_error_recorded s \<longrightarrow>
            execution_error r = Some (create_from_exception
              (RuntimeError (WrongPhase (phase s) ''get_report'' {Complete})))
            \<and> phase s' = Complete)
       \<and> (phase s = Complete \<or> \<not> no_error_recorded s \<longrightarrow>
            execution_error r = (case scenario_report s of
                                   None \<Rightarrow> None | Some r0 \<Rightarrow> execution_error r0)
            \<and> phase s' = phase s)
       \<and> (\<forall>r0. scenario_report s = Some r0 \<longrightarrow>
            rep_cases r = rep_cases r0 \<and> rep_cleanup r = rep_cleanup r0)
       \<and> (successful r = Some False \<longleftrightarrow>
            execution_error r \<noteq> None
            \<or> has_serious_failure (case_store s') (step_store s') r)
       \<and> (successful r = Some True \<longleftrightarrow>
            \<not> (execution_error r \<noteq> None
               \<or> has_serious_failure (case_store s') (step_store s') r))"
proof (cases "scenario_report s")
  case (Some r0)
  from get_report_spec_with_report [OF Some, of now] show ?thesis
    by (auto simp add: no_error_recorded_def Some)
next
  case None
  with bound obtain doc decl
    where d: "documentation s = Some doc" "scn_declaration s = Some decl" by auto
  let ?r0 = "\<lparr>rep_name = doc_name doc,
             rep_scenario_type = scenario_type decl,
             rep_documentation_url = doc_url doc,
             rep_start_time = now,
             rep_end_time = None,
             rep_cases = [],
             rep_notes = None,
             rep_cleanup = None,
             execution_error = None,
             successful = None\<rparr>"
  let ?s0 = "s\<lparr>scenario_report := Some ?r0\<rparr>"
  have rep: "scenario_report ?s0 = Some ?r0" by simp
  from get_report_spec_with_report [OF rep, of now] show ?thesis
    unfolding get_report_without_report [OF None d]
    by (auto simp add: no_error_recorded_def None)
qed

lemma example_cleanup_check_handle:
  "check ''Flights removed'' None example_cleaning_up
     = (Inr example_cleanup_handle, example_cleaning_up)"
  by (simp add: check_def example_cleanup_handle_def example_cleaning_up_def
      example_cleanup_scenario_def example_cleanup_check_def begin_cleanup_def
      end_test_scenario_def example_defs)

lemma example_cleanup_failed_fields:
  "phase example_cleanup_failed = Complete"
  "map_option rep_cases (scenario_report example_cleanup_failed) = Some []"
  "map_option rep_cleanup (scenario_report example_cleanup_failed) = Some (Some 0)"
  "map_option execution_error (scenario_report example_cleanup_failed) = Some None"
  "map failed_severity (failed_checks (step_store example_cleanup_failed 0)) = [High]"
  by (simp_all add: example_cleanup_failed_def example_cleanup_handle_def
      example_cleaning_up_def example_cleanup_scenario_def example_cleanup_check_def
      begin_cleanup_def end_cleanup_def end_test_scenario_def record_failed_def example_defs)

text \<open>
  On the example: the run that passes and the run with a Low failure are successful, the
  run aborted by a High failure and the run with a High failure in the cleanup step are
  not, and asking inside a step or before the start records an execution error.
\<close>

theorem get_report_spec_witness:
  "(\<exists>r s'. get_report 30 example_passed_complete = (Inr r, s')
       \<and> successful r = Some True \<and> execution_error r = None \<and> phase s' = Complete)
   \<and> (\<exists>r s'. get_report 30 example_low_complete = (Inr r, s')
       \<and> successful r = Some True \<and> execution_error r = None)
   \<and> (\<exists>r s'. get_report 30 example_aborted = (Inr r, s')
       \<and> successful r = Some False \<and> execution_error r = None)
   \<and> (\<exists>r s'. get_report 30 example_cleanup_failed = (Inr r, s')
       \<and> successful r = Some False \<and> execution_error r = None)
   \<and> (\<exists>r s'. get_report 30 example_in_step = (Inr r, s')
       \<and> successful r = Some False
       \<and> execution_error r = Some (ErrorReport
            (RuntimeError (WrongPhase RunningTestStep ''get_report'' {Complete})))
       \<and> phase s' = Complete)
   \<and> (\<exists>r s'. get_report 30 example_scenario = (Inr r, s')
       \<and> successful r = Some False \<and> phase s' = Complete)"
proof (intro conjI)
  from get_report_spec [of example_passed_complete 30]
  show "\<exists>r s'. get_report 30 example_passed_complete = (Inr r, s')
       \<and> successful r = Some True \<and> execution_error r = None \<and> phase s' = Complete"
    using example_passed_complete_fields
    by (auto simp add: has_serious_failure_def no_error_recorded_def split: option.splits)
next
  from get_report_spec [of example_low_complete 30]
  show "\<exists>r s'. get_report 30 example_low_complete = (Inr r, s')
       \<and> successful r = Some True \<and> execution_error r = None"
    using example_low_complete_fields
    by (auto simp add: has_serious_failure_def no_error_recorded_def split: option.splits)
next
  from get_report_spec [of example_aborted 30]
  show "\<exists>r s'. get_report 30 example_aborted = (Inr r, s')
       \<and> successful r = Some False \<and> execution_error r = None"
    using example_aborted_fields
    by (auto simp add: has_serious_failure_def no_error_recorded_def split: option.splits)
next
  from get_report_spec [of example_cleanup_failed 30]
  show "\<exists>r s'. get_report 30 example_cleanup_failed = (Inr r, s')
       \<and> successful r = Some False \<and> execution_error r = None"
    using example_cleanup_failed_fields
    by (auto simp add: has_serious_failure_def no_error_recorded_def split: option.splits)
next
  from get_report_spec [of example_in_step 30]
  show "\<exists>r s'. get_report 30 example_in_step = (Inr r, s')
       \<and> successful r = Some False
       \<and> execution_error r = Some (ErrorReport
            (RuntimeError (WrongPhase RunningTestStep ''get_report'' {Complete})))
       \<and> phase s' = Complete"
    by (auto simp add: no_error_recorded_def create_from_exception_def example_defs)
next
  from get_report_spec [of example_scenario 30]
  show "\<exists>r s'. get_report 30 example_scenario = (Inr r, s')
       \<and> successful r = Some False \<and> phase s' = Complete"
    by (auto simp add: no_error_recorded_def example_scenario_def TestScenario_init_def
        TestScenario_new_def)
qed

subsection \<open>The factory\<close>

lemma find_filter: "find P (filter Q xs) = find (\<lambda>x. Q x \<and> P x) xs"
  by (induction xs) auto

lemma constructor_arguments_eq:
  "constructor_arguments st pool ps acc =
     (case find (\<lambda>n. n \<noteq> ''self'' \<and> map_of pool n = None) ps of
        Some missing \<Rightarrow>
          Inl (ValueError (ResourceNotFound missing st (join '', '' (map fst pool))))
      | None \<Rightarrow>
          Inr (\<lambda>n. if n \<in> set ps \<and> n \<noteq> ''self'' then map_of pool n else acc n))"
proof (induction ps arbitrary: acc)
  case Nil
  then show ?case by simp
next
  case (Cons p ps)
  then show ?case by (auto split: option.splits intro!: ext)
qed

lemma constructor_arguments_dependencies:
  "constructor_arguments st pool (init_parameters cls) Map.empty =
     (case find (\<lambda>n. map_of pool n = None) (dependencies cls) of
        Some missing \<Rightarrow>
          Inl (ValueError (ResourceNotFound missing st (join '', '' (map fst pool))))
      | None \<Rightarrow> Inr (resolved_arguments pool (dependencies cls)))"
  by (auto simp add: constructor_arguments_eq dependencies_def find_filter
      resolved_arguments_def split: option.splits intro!: ext)

text \<open>
  C8. For a declared type that resolves to a subclass of TestScenario: when some declared
  dependency is not a key of the resource pool, the factory raises the ValueError that
  names the first such dependency and lists the keys of the pool, the world is as before,
  and the outcome is the same whatever the constructor is, so the constructor has not run;
  when every declared dependency is a key of the pool, the constructor runs once, on
  exactly the declared dependencies with their resources, and the declaration is bound to
  the scenario it returns.
\<close>

theorem make_test_scenario_spec:
  assumes found: "get_module_object_by_name (scenario_type decl) = Inr cls"
    and sub: "is_TestScenario_subclass cls"
  shows
    "(\<forall>missing. find (\<lambda>n. map_of resource_pool n = None) (dependencies cls) = Some missing \<longrightarrow>
        make_test_scenario get_module_object_by_name decl resource_pool w =
          (Inl (ValueError (ResourceNotFound missing (scenario_type decl)
                              (join '', '' (map fst resource_pool)))), w)
        \<and> (\<forall>c. make_test_scenario (\<lambda>_. Inr (cls\<lparr>construct := c\<rparr>)) decl resource_pool w =
                 make_test_scenario get_module_object_by_name decl resource_pool w))
     \<and> ((\<forall>n \<in> set (dependencies cls). map_of resource_pool n \<noteq> None) \<longrightarrow>
        make_test_scenario get_module_object_by_name decl resource_pool w =
          (case construct cls (resolved_arguments resource_pool (dependencies cls)) w of
             (Inl e, w') \<Rightarrow> (Inl e, w')
           | (Inr scenario, w') \<Rightarrow>
               (Inr (scenario\<lparr>scn_declaration := Some decl\<rparr>), w')))
     \<and> ((\<exists>n \<in> set (dependencies cls). map_of resource_pool n = None) \<longrightarrow>
        (\<exists>missing \<in> set (dependencies cls). map_of resource_pool missing = None
           \<and> find (\<lambda>n. map_of resource_pool n = None) (dependencies cls) = Some missing))"
proof (intro conjI impI)
  show "\<forall>missing. find (\<lambda>n. map_of resource_pool n = None) (dependencies cls) = Some missing \<longrightarrow>
        make_test_scenario get_module_object_by_name decl resource_pool w =
          (Inl (ValueError (ResourceNotFound missing (scenario_type decl)
                              (join '', '' (map fst resource_pool)))), w)
        \<and> (\<forall>c. make_test_scenario (\<lambda>_. Inr (cls\<lparr>construct := c\<rparr>)) decl resource_pool w =
                 make_test_scenario get_module_object_by_name decl resource_pool w)"
    using found sub
    by (simp add: make_test_scenario_def constructor_arguments_dependencies dependencies_def)
next
  assume "\<forall>n \<in> set (dependencies cls). map_of resource_pool n \<noteq> None"
  then have "find (\<lambda>n. map_of resource_pool n = None) (dependencies cls) = None"
    by (simp add: find_None_iff)
  then show "make_test_scenario get_module_object_by_name decl resource_pool w =
          (case construct cls (resolved_arguments resource_pool (dependencies cls)) w of
             (Inl e, w') \<Rightarrow> (Inl e, w')
           | (Inr scenario, w') \<Rightarrow>
               (Inr (scenario\<lparr>scn_declaration := Some decl\<rparr>), w'))"
    using found sub by (simp add: make_test_scenario_def constructor_arguments_dependencies)
next
  assume "\<exists>n \<in> set (dependencies cls). map_of resource_pool n = None"
  then have "find (\<lambda>n. map_of resource_pool n = None) (dependencies cls) \<noteq> None"
    by (auto simp add: find_None_iff)
  then obtain missing
    where "find (\<lambda>n. map_of resource_pool n = None) (dependencies cls) = Some missing"
    by auto
  then show "\<exists>missing \<in> set (dependencies cls). map_of resource_pool missing = None
           \<and> find (\<lambda>n. map_of resource_pool n = None) (dependencies cls) = Some missing"
    by (auto simp add: find_Some_iff)
qed

lemma example_lookup_found:
  "example_lookup (scenario_type example_declaration) = Inr example_class"
  "is_TestScenario_subclass example_class"
  by (simp_all add: example_lookup_def example_declaration_def example_class_def)

text \<open>
  With "uss2" and "dss" missing from the pool the error names "uss2" and the constructor's
  call count stays 0; with the full pool the constructor is called once.
\<close>

theorem make_test_scenario_spec_witness:
  "make_test_scenario example_lookup example_declaration
       [(''flight_intents'', ''FlightIntentsResource''), (''uss1'', ''FlightPlannerResource'')] 0
     = (Inl (ValueError (ResourceNotFound ''uss2'' ''scenarios.astm.utm.NominalPlanningPriority''
                            ''flight_intents, uss1'')), 0)
   \<and> make_test_scenario example_lookup example_declaration example_pool 0
     = (Inr (example_scenario
               \<lparr>scn_declaration := Some example_declaration\<rparr>), 1)"
  using make_test_scenario_spec [where get_module_object_by_name = example_lookup
      and decl = example_declaration and cls = example_class and w = 0
      and resource_pool =
        "[(''flight_intents'', ''FlightIntentsResource''), (''uss1'', ''FlightPlannerResource'')]",
      OF example_lookup_found]
    make_test_scenario_spec [where get_module_object_by_name = example_lookup
      and decl = example_declaration and cls = example_class and w = 0
      and resource_pool = example_pool, OF example_lookup_found]
  by (auto simp add: dependencies_def example_class_def example_declaration_def example_pool_def
      example_constructor_def example_scenario_def)

subsection \<open>Scenario discovery\<close>


















subsection \<open>Reachable states\<close>

lemma check_state: "snd (check name participants s) = s"
  by (simp add: check_def split: sum.splits option.splits)

lemma reachable_consistent: "reachable s \<Longrightarrow> consistent s"
proof (induction rule: reachable.induct)
  case (constructed doc decl observer)
  then show ?case by (simp add: consistent_def TestScenario_init_def TestScenario_new_def)
next
  case (begin_test_scenario s now)
  then show ?case
    by (auto simp add: consistent_def begin_test_scenario_def make_scenario_report_def
        expect_phase_def split: option.splits)
next
  case (record_note s key msg now)
  then show ?case
    by (auto simp add: consistent_def record_note_def expect_phase_def split: option.splits)
next
  case (begin_test_case s name now)
  then show ?case
    by (auto simp add: consistent_def begin_test_case_def expect_phase_def less_Suc_eq
        split: option.splits if_splits)
next
  case (begin_test_step s name now)
  then show ?case
    by (auto simp add: consistent_def begin_test_step_def expect_phase_def Let_def
        split: option.splits)
next
  case (record_query s query)
  then show ?case
    by (auto simp add: consistent_def record_query_def expect_phase_def split: option.splits)
next
  case (check s name participants)
  then show ?case by (simp add: check_state)
next
  case (end_test_step s now)
  then show ?case
    by (auto simp add: consistent_def end_test_step_def expect_phase_def split: option.splits)
next
  case (end_test_case s now)
  then show ?case
    by (auto simp add: consistent_def end_test_case_def expect_phase_def split: option.splits)
next
  case (end_test_scenario s now)
  then show ?case
    by (auto simp add: consistent_def end_test_scenario_def expect_phase_def
        split: option.splits)
next
  case (go_to_cleanup s)
  then show ?case
    by (auto simp add: consistent_def go_to_cleanup_def expect_phase_def)
next
  case (begin_cleanup s now)
  then show ?case
    by (auto simp add: consistent_def begin_cleanup_def expect_phase_def Let_def
        split: option.splits)
next
  case (skip_cleanup s)
  then show ?case
    by (auto simp add: consistent_def skip_cleanup_def expect_phase_def split: option.splits)
next
  case (end_cleanup s now)
  then show ?case
    by (auto simp add: consistent_def end_cleanup_def expect_phase_def split: option.splits)
next
  case (record_execution_error s e now)
  then show ?case
    by (auto simp add: consistent_def record_execution_error_def make_scenario_report_def
        split: option.splits)
next
  case (get_report s now)
  then have c: "consistent s" by simp
  show ?case
  proof (cases "scenario_report s")
    case (Some r0)
    with c show ?thesis
      by (auto simp add: get_report_with_report [OF Some] consistent_def Let_def)
  next
    case None
    with c obtain doc decl
      where d: "documentation s = Some doc" "scn_declaration s = Some decl"
      by (auto simp add: consistent_def)
    have rep: "scenario_report
                 (s\<lparr>scenario_report := Some
                      \<lparr>rep_name = doc_name doc,
                       rep_scenario_type = scenario_type decl,
                       rep_documentation_url = doc_url doc,
                       rep_start_time = now,
                       rep_end_time = None,
                       rep_cases = [],
                       rep_notes = None,
                       rep_cleanup = None,
                       execution_error = None,
                       successful = None\<rparr>\<rparr>)
               = Some \<lparr>rep_name = doc_name doc,
                       rep_scenario_type = scenario_type decl,
                       rep_documentation_url = doc_url doc,
                       rep_start_time = now,
                       rep_end_time = None,
                       rep_cases = [],
                       rep_notes = None,
                       rep_cleanup = None,
                       execution_error = None,
                       successful = None\<rparr>"
      by simp
    from c d show ?thesis
      unfolding get_report_without_report [OF None d] get_report_with_report [OF rep]
      by (auto simp add: consistent_def Let_def)
  qed
next
  case (record_failed s summary severity details participants query_timestamps
      additional_data requirements now h w)
  then show ?case
    by (auto simp add: consistent_def record_failed_def Let_def
        split: option.splits prod.splits)
next
  case (record_passed s participants requirements h)
  then show ?case
    by (auto simp add: consistent_def record_passed_def Let_def split: option.splits)
qed

text \<open>
  In every reachable state of phase NotStarted \<^verbatim>\<open>record_note\<close> raises TypeError;
  in the other five phases of its list it upserts the note and changes nothing else.
\<close>

lemma record_note_not_started_always:
  assumes "reachable s" "phase s = NotStarted"
  shows "record_note key msg now s = (Inl TypeError, s)"
  using reachable_consistent [OF assms(1)] assms(2)
  by (simp add: consistent_def record_note_def expect_phase_def)

lemma record_note_with_report:
  assumes "phase s \<in> {ReadyForTestCase, ReadyForTestStep, RunningTestStep, ReadyForCleanup,
                        CleaningUp}"
    and "scenario_report s = Some r"
  shows "\<exists>notes'. record_note key msg now s
           = (Inr (), s\<lparr>scenario_report := Some (r\<lparr>rep_notes := Some notes'\<rparr>)\<rparr>)
         \<and> notes' key = Some \<lparr>note_message = msg, note_timestamp = now\<rparr>
         \<and> (\<forall>k. k \<noteq> key \<longrightarrow>
               notes' k = (case rep_notes r of None \<Rightarrow> None | Some m \<Rightarrow> m k))"
  using assms
  by (auto simp add: record_note_def expect_phase_def split: option.splits)

text \<open>
  The branches in which an unset reference is read are not taken in reachable states,
  with one exception: \<^verbatim>\<open>check\<close> on an undeclared name when no case is current.
\<close>

lemma reachable_only_protocol_errors:
  assumes "reachable s"
  shows "fst (begin_test_case name now s) \<noteq> Inl AttributeError"
    "fst (begin_test_step name now s) \<noteq> Inl AttributeError"
    "fst (end_test_step now s) \<noteq> Inl AttributeError"
    "fst (end_test_case now s) \<noteq> Inl AttributeError"
    "fst (end_test_scenario now s) \<noteq> Inl AttributeError"
    "fst (begin_cleanup now s) \<noteq> Inl AttributeError"
    "fst (end_cleanup now s) \<noteq> Inl AttributeError"
    "fst (record_query query s) \<noteq> Inl TypeError"
  using reachable_consistent [OF assms]
  by (auto simp add: consistent_def expect_phase_def begin_test_case_def begin_test_step_def
      end_test_step_def end_test_case_def end_test_scenario_def begin_cleanup_def
      end_cleanup_def check_def record_query_def Let_def split: option.splits if_splits)

text \<open>
  In every reachable state \<^verbatim>\<open>get_report\<close> has what it needs to return a report.
\<close>

lemma reachable_report_or_bound:
  "reachable s \<Longrightarrow>
     scenario_report s \<noteq> None \<or> (documentation s \<noteq> None \<and> scn_declaration s \<noteq> None)"
  by (auto dest: reachable_consistent simp add: consistent_def)

lemma check_attribute_error:
  assumes "reachable s"
  shows "fst (check name participants s) = Inl AttributeError \<longleftrightarrow>
     phase s = CleaningUp \<and> current_case s = None
     \<and> (\<exists>cs. current_step s = Some cs \<and> name \<notin> set (map check_name (step_checks cs)))"
proof -
  from reachable_consistent [OF assms]
  have c: "phase s \<in> {RunningTestStep, CleaningUp} \<longrightarrow> current_step s \<noteq> None"
    "phase s = RunningTestStep \<longrightarrow> current_case s \<noteq> None"
    by (simp_all add: consistent_def)
  show ?thesis
  proof (cases "phase s \<in> {RunningTestStep, CleaningUp}")
    case False
    then show ?thesis by (simp add: check_def expect_phase_def)
  next
    case True
    with c(1) obtain cs where cs: "current_step s = Some cs" by auto
    show ?thesis
    proof (cases "by_name check_name (step_checks cs) name")
      case None
      then have "name \<notin> set (map check_name (step_checks cs))"
        by (simp add: by_name_None)
      with None True cs c(2) show ?thesis
        by (cases "current_case s") (auto simp add: check_def expect_phase_def)
    next
      case (Some d)
      then have "name \<in> set (map check_name (step_checks cs))"
        using by_name_None [of check_name "step_checks cs" name] by simp
      with Some True cs show ?thesis
        by (simp add: check_def expect_phase_def)
    qed
  qed
qed

subsection \<open>Beginning a test case\<close>

lemma example_scenario_reachable: "reachable example_scenario"
  using reachable.constructed [where doc = example_documentation
      and decl = "\<lparr>scenario_type = ''scenarios.Example''\<rparr>"
      and observer = "None :: nat observer option"]
  by (simp add: example_scenario_def TestScenario_init_def TestScenario_new_def)

lemma example_two_case_scenario_reachable: "reachable example_two_case_scenario"
  using reachable.constructed [where doc = example_two_case_documentation
      and decl = "\<lparr>scenario_type = ''scenarios.Example''\<rparr>"
      and observer = "None :: nat observer option"]
  by (simp add: example_two_case_scenario_def TestScenario_init_def TestScenario_new_def)

lemma example_setup_done_reachable: "reachable example_setup_done"
  unfolding example_setup_done_def
  by (rule reachable.end_test_case, rule reachable.begin_test_case,
      rule reachable.begin_test_scenario, rule example_two_case_scenario_reachable)

lemma example_setup_done_fields:
  "phase example_setup_done = ReadyForTestCase"
  "documentation example_setup_done = Some example_two_case_documentation"
  "map_option rep_cases (scenario_report example_setup_done) = Some [0]"
  "cr_name (case_store example_setup_done 0) = ''Setup''"
  "cr_end_time (case_store example_setup_done 0) = Some 14"
  "case_next example_setup_done = 1"
  by (simp_all add: example_setup_done_def example_two_case_scenario_def
      example_two_case_documentation_def example_defs)

text \<open>
  C2. In phase ReadyForTestCase, in any reachable state (documentation bound, report
  created): \<^verbatim>\<open>begin_test_case(name)\<close> raises when \<open>name\<close> is not a documented case
  name, raises when a case report of that name is already in the report's case list, and
  otherwise appends exactly one new case report (of that name, with no steps) to the case
  list, whose earlier case reports are all as before, and moves to ReadyForTestStep. In
  both error cases the state is as before.
\<close>

theorem begin_test_case_spec:
  assumes r: "reachable s" and ph: "phase s = ReadyForTestCase"
  shows
    "\<exists>doc rep. documentation s = Some doc \<and> scenario_report s = Some rep
     \<and> (name \<notin> set (map case_name (doc_cases doc)) \<longrightarrow>
        begin_test_case name now s = (Inl (RuntimeError (CaseNotDeclared name)), s))
     \<and> (name \<in> set (map case_name (doc_cases doc))
        \<and> name \<in> set (map (\<lambda>a. cr_name (case_store s a)) (rep_cases rep)) \<longrightarrow>
        begin_test_case name now s = (Inl (RuntimeError (CaseAlreadyRun name)), s))
     \<and> (name \<in> set (map case_name (doc_cases doc))
        \<and> name \<notin> set (map (\<lambda>a. cr_name (case_store s a)) (rep_cases rep)) \<longrightarrow>
        (\<exists>s' c. begin_test_case name now s = (Inr (), s')
           \<and> phase s' = ReadyForTestStep
           \<and> scenario_report s' = Some (rep\<lparr>rep_cases := rep_cases rep @ [case_next s]\<rparr>)
           \<and> c \<in> set (doc_cases doc) \<and> case_name c = name
           \<and> case_store s' (case_next s) =
                \<lparr>cr_name = name, cr_documentation_url = case_url c, cr_start_time = now,
                 cr_end_time = None, cr_steps = []\<rparr>
           \<and> (\<forall>a. a \<noteq> case_next s \<longrightarrow> case_store s' a = case_store s a)
           \<and> step_store s' = step_store s
           \<and> map (case_store s') (rep_cases rep @ [case_next s]) =
                map (case_store s) (rep_cases rep) @
                  [\<lparr>cr_name = name, cr_documentation_url = case_url c, cr_start_time = now,
                    cr_end_time = None, cr_steps = []\<rparr>]))"
proof -
  from reachable_consistent [OF r] ph obtain doc rep
    where doc: "documentation s = Some doc" and rep: "scenario_report s = Some rep"
      and fresh: "\<forall>a \<in> set (rep_cases rep). a < case_next s"
    by (auto simp add: consistent_def)
  have notin: "case_next s \<notin> set (rep_cases rep)" using fresh by auto
  have undeclared: "name \<notin> set (map case_name (doc_cases doc)) \<longrightarrow>
        begin_test_case name now s = (Inl (RuntimeError (CaseNotDeclared name)), s)"
  proof
    assume "name \<notin> set (map case_name (doc_cases doc))"
    then have "by_name case_name (doc_cases doc) name = None"
      by (simp add: by_name_None)
    then show "begin_test_case name now s = (Inl (RuntimeError (CaseNotDeclared name)), s)"
      using ph doc by (simp add: begin_test_case_def expect_phase_def)
  qed
  have again: "name \<in> set (map case_name (doc_cases doc))
        \<and> name \<in> set (map (\<lambda>a. cr_name (case_store s a)) (rep_cases rep)) \<longrightarrow>
        begin_test_case name now s = (Inl (RuntimeError (CaseAlreadyRun name)), s)"
  proof
    assume a: "name \<in> set (map case_name (doc_cases doc))
        \<and> name \<in> set (map (\<lambda>a. cr_name (case_store s a)) (rep_cases rep))"
    then obtain c where "by_name case_name (doc_cases doc) name = Some c"
      using by_name_None [of case_name "doc_cases doc" name] by auto
    then show "begin_test_case name now s = (Inl (RuntimeError (CaseAlreadyRun name)), s)"
      using ph doc rep a by (simp add: begin_test_case_def expect_phase_def)
  qed
  have fresh_case: "name \<in> set (map case_name (doc_cases doc))
        \<and> name \<notin> set (map (\<lambda>a. cr_name (case_store s a)) (rep_cases rep)) \<longrightarrow>
        (\<exists>s' c. begin_test_case name now s = (Inr (), s')
           \<and> phase s' = ReadyForTestStep
           \<and> scenario_report s' = Some (rep\<lparr>rep_cases := rep_cases rep @ [case_next s]\<rparr>)
           \<and> c \<in> set (doc_cases doc) \<and> case_name c = name
           \<and> case_store s' (case_next s) =
                \<lparr>cr_name = name, cr_documentation_url = case_url c, cr_start_time = now,
                 cr_end_time = None, cr_steps = []\<rparr>
           \<and> (\<forall>a. a \<noteq> case_next s \<longrightarrow> case_store s' a = case_store s a)
           \<and> step_store s' = step_store s
           \<and> map (case_store s') (rep_cases rep @ [case_next s]) =
                map (case_store s) (rep_cases rep) @
                  [\<lparr>cr_name = name, cr_documentation_url = case_url c, cr_start_time = now,
                    cr_end_time = None, cr_steps = []\<rparr>])"
  proof
    assume a: "name \<in> set (map case_name (doc_cases doc))
        \<and> name \<notin> set (map (\<lambda>a. cr_name (case_store s a)) (rep_cases rep))"
    then obtain c where c: "by_name case_name (doc_cases doc) name = Some c"
      using by_name_None [of case_name "doc_cases doc" name] by auto
    from by_name_Some [OF c] have cin: "c \<in> set (doc_cases doc)" "case_name c = name" by auto
    let ?s' = "snd (begin_test_case name now s)"
    have run: "begin_test_case name now s = (Inr (), ?s')"
      using ph doc rep a c by (simp add: begin_test_case_def expect_phase_def)
    have st: "?s' = s\<lparr>current_case := Some c,
                          case_report := Some (case_next s),
                          case_store := (case_store s)
                            (case_next s :=
                               \<lparr>cr_name = case_name c,
                                cr_documentation_url = case_url c,
                                cr_start_time = now,
                                cr_end_time = None,
                                cr_steps = []\<rparr>),
                          case_next := Suc (case_next s),
                          scenario_report := Some
                            (rep\<lparr>rep_cases := rep_cases rep @ [case_next s]\<rparr>),
                          phase := ReadyForTestStep\<rparr>"
      using ph doc rep a c by (simp add: begin_test_case_def expect_phase_def)
    show "\<exists>s' c. begin_test_case name now s = (Inr (), s')
           \<and> phase s' = ReadyForTestStep
           \<and> scenario_report s' = Some (rep\<lparr>rep_cases := rep_cases rep @ [case_next s]\<rparr>)
           \<and> c \<in> set (doc_cases doc) \<and> case_name c = name
           \<and> case_store s' (case_next s) =
                \<lparr>cr_name = name, cr_documentation_url = case_url c, cr_start_time = now,
                 cr_end_time = None, cr_steps = []\<rparr>
           \<and> (\<forall>a. a \<noteq> case_next s \<longrightarrow> case_store s' a = case_store s a)
           \<and> step_store s' = step_store s
           \<and> map (case_store s') (rep_cases rep @ [case_next s]) =
                map (case_store s) (rep_cases rep) @
                  [\<lparr>cr_name = name, cr_documentation_url = case_url c, cr_start_time = now,
                    cr_end_time = None, cr_steps = []\<rparr>]"
      apply (rule exI [of _ ?s'], rule exI [of _ c])
      apply (intro conjI)
              apply (rule run)
      using cin notin by (simp_all add: st)
  qed
  from doc rep undeclared again fresh_case show ?thesis by blast
qed

lemma example_two_case_names:
  "map case_name (doc_cases example_two_case_documentation) = [''Setup'', ''Plan first flight'']"
  by (simp add: example_two_case_documentation_def example_documentation_def)

text \<open>
  After the case "Setup" has run: an undeclared name and "Setup" again are refused, and
  "Plan first flight" is appended behind the report of "Setup", which keeps its end time.
\<close>

theorem begin_test_case_spec_witness:
  "reachable example_setup_done \<and> phase example_setup_done = ReadyForTestCase
   \<and> begin_test_case ''Bogus'' 15 example_setup_done =
     (Inl (RuntimeError (CaseNotDeclared ''Bogus'')), example_setup_done)
   \<and> begin_test_case ''Setup'' 15 example_setup_done =
     (Inl (RuntimeError (CaseAlreadyRun ''Setup'')), example_setup_done)
   \<and> (\<exists>s'. begin_test_case ''Plan first flight'' 15 example_setup_done = (Inr (), s')
         \<and> phase s' = ReadyForTestStep
         \<and> map_option rep_cases (scenario_report s') = Some [0, 1]
         \<and> map (\<lambda>a. cr_name (case_store s' a)) [0, 1] = [''Setup'', ''Plan first flight'']
         \<and> cr_end_time (case_store s' 0) = Some 14 \<and> cr_steps (case_store s' 1) = [])"
proof -
  note r = example_setup_done_reachable and ph = example_setup_done_fields(1)
  have a: "begin_test_case ''Bogus'' 15 example_setup_done =
     (Inl (RuntimeError (CaseNotDeclared ''Bogus'')), example_setup_done)"
  proof -
    from begin_test_case_spec [OF r ph, of "''Bogus''" 15] obtain doc rep
      where d: "documentation example_setup_done = Some doc"
        and u: "''Bogus'' \<notin> set (map case_name (doc_cases doc)) \<longrightarrow>
          begin_test_case ''Bogus'' 15 example_setup_done =
            (Inl (RuntimeError (CaseNotDeclared ''Bogus'')), example_setup_done)"
      by blast
    from d have "doc = example_two_case_documentation"
      by (simp add: example_setup_done_fields(2))
    with u show ?thesis by (simp add: example_two_case_names)
  qed
  have b: "begin_test_case ''Setup'' 15 example_setup_done =
     (Inl (RuntimeError (CaseAlreadyRun ''Setup'')), example_setup_done)"
  proof -
    from begin_test_case_spec [OF r ph, of "''Setup''" 15] obtain doc rep
      where d: "documentation example_setup_done = Some doc"
        and rp: "scenario_report example_setup_done = Some rep"
        and u: "''Setup'' \<in> set (map case_name (doc_cases doc))
          \<and> ''Setup'' \<in> set (map (\<lambda>a. cr_name (case_store example_setup_done a))
                                (rep_cases rep)) \<longrightarrow>
          begin_test_case ''Setup'' 15 example_setup_done =
            (Inl (RuntimeError (CaseAlreadyRun ''Setup'')), example_setup_done)"
      by blast
    from d have doc: "doc = example_two_case_documentation"
      by (simp add: example_setup_done_fields(2))
    from rp have "rep_cases rep = [0]"
      using example_setup_done_fields(3) by simp
    with u doc show ?thesis
      by (simp add: example_two_case_names example_setup_done_fields(4))
  qed
  have c: "\<exists>s'. begin_test_case ''Plan first flight'' 15 example_setup_done = (Inr (), s')
         \<and> phase s' = ReadyForTestStep
         \<and> map_option rep_cases (scenario_report s') = Some [0, 1]
         \<and> map (\<lambda>a. cr_name (case_store s' a)) [0, 1] = [''Setup'', ''Plan first flight'']
         \<and> cr_end_time (case_store s' 0) = Some 14 \<and> cr_steps (case_store s' 1) = []"
  proof -
    from begin_test_case_spec [OF r ph, of "''Plan first flight''" 15] obtain doc rep
      where d: "documentation example_setup_done = Some doc"
        and rp: "scenario_report example_setup_done = Some rep"
        and u: "''Plan first flight'' \<in> set (map case_name (doc_cases doc))
          \<and> ''Plan first flight'' \<notin> set (map (\<lambda>a. cr_name (case_store example_setup_done a))
                                (rep_cases rep)) \<longrightarrow>
          (\<exists>s' c. begin_test_case ''Plan first flight'' 15 example_setup_done = (Inr (), s')
           \<and> phase s' = ReadyForTestStep
           \<and> scenario_report s' =
               Some (rep\<lparr>rep_cases := rep_cases rep @ [case_next example_setup_done]\<rparr>)
           \<and> c \<in> set (doc_cases doc) \<and> case_name c = ''Plan first flight''
           \<and> case_store s' (case_next example_setup_done) =
                \<lparr>cr_name = ''Plan first flight'', cr_documentation_url = case_url c,
                 cr_start_time = 15, cr_end_time = None, cr_steps = []\<rparr>
           \<and> (\<forall>a. a \<noteq> case_next example_setup_done \<longrightarrow>
                  case_store s' a = case_store example_setup_done a)
           \<and> step_store s' = step_store example_setup_done
           \<and> map (case_store s') (rep_cases rep @ [case_next example_setup_done]) =
                map (case_store example_setup_done) (rep_cases rep) @
                  [\<lparr>cr_name = ''Plan first flight'', cr_documentation_url = case_url c,
                    cr_start_time = 15, cr_end_time = None, cr_steps = []\<rparr>])"
      by blast
    from d have doc: "doc = example_two_case_documentation"
      by (simp add: example_setup_done_fields(2))
    from rp have cases: "rep_cases rep = [0]"
      using example_setup_done_fields(3) by simp
    have prem: "''Plan first flight'' \<in> set (map case_name (doc_cases doc))
          \<and> ''Plan first flight'' \<notin> set (map (\<lambda>a. cr_name (case_store example_setup_done a))
                                (rep_cases rep))"
      using doc cases by (simp add: example_two_case_names example_setup_done_fields(4))
    from mp [OF u prem] show ?thesis
      apply (elim exE conjE)
      subgoal for s' c
        apply (rule exI [of _ s'])
        apply (simp add: cases example_setup_done_fields(4,5,6))
        done
      done
  qed
  from r ph a b c show ?thesis by blast
qed

subsection \<open>Execution errors before the start\<close>

text \<open>
  C10, amended. On a scenario built by the factory that is still in phase NotStarted
  (any reachable state of that phase: documentation and declaration bound, no report
  yet), \<^verbatim>\<open>record_execution_error\<close> returns normally: the state afterwards holds a
  new scenario report with no cases, no notes and no cleanup, the error record attached
  and \<^verbatim>\<open>successful\<close> False, and the phase is Complete.
\<close>

theorem record_execution_error_not_started:
  assumes r: "reachable s" and ph: "phase s = NotStarted"
  shows
    "\<exists>doc decl. documentation s = Some doc \<and> scn_declaration s = Some decl
       \<and> scenario_report s = None
       \<and> record_execution_error e now s =
         (Inr (),
          s\<lparr>scenario_report := Some
               \<lparr>rep_name = doc_name doc,
                rep_scenario_type = scenario_type decl,
                rep_documentation_url = doc_url doc,
                rep_start_time = now,
                rep_end_time = None,
                rep_cases = [],
                rep_notes = None,
                rep_cleanup = None,
                execution_error = Some (create_from_exception e),
                successful = Some False\<rparr>,
            phase := Complete\<rparr>)"
proof -
  from reachable_consistent [OF r] ph obtain doc decl
    where d: "documentation s = Some doc" "scn_declaration s = Some decl"
      "scenario_report s = None"
    by (auto simp add: consistent_def)
  with ph show ?thesis
    by (simp add: record_execution_error_def make_scenario_report_def)
qed

text \<open>On the example scenario as the factory leaves it.\<close>

theorem record_execution_error_not_started_witness:
  "reachable example_scenario \<and> phase example_scenario = NotStarted
   \<and> (\<exists>s'. record_execution_error (ForeignException ''boom'') 3 example_scenario = (Inr (), s')
       \<and> phase s' = Complete
       \<and> map_option execution_error (scenario_report s')
           = Some (Some (ErrorReport (ForeignException ''boom'')))
       \<and> map_option successful (scenario_report s') = Some (Some False)
       \<and> map_option rep_cases (scenario_report s') = Some [])"
proof -
  have ph: "phase example_scenario = NotStarted"
    by (simp add: example_scenario_def TestScenario_init_def)
  from record_execution_error_not_started [OF example_scenario_reachable ph,
      of "ForeignException ''boom''" 3]
  show ?thesis
    using example_scenario_reachable ph by (auto simp add: create_from_exception_def)
qed

end
